theory Spec2Isabelle
  imports Main "HOL-Library.AList" "HOL-Library.Sublist"
begin

section \<open>The tool-use tutorial notebook (docs/docs/tutorials/tool_use/index.ipynb)\<close>

text \<open>
  The notebook has five code cells that matter here: the seeded shuffle of the data set
  (cell 2), the construction of the per-example tool registries and the train/dev/test
  split (cell 3), the helpers \<^verbatim>\<open>wrap_function_with_timeout\<close>, \<^verbatim>\<open>fn_metadata\<close> and
  \<^verbatim>\<open>metric\<close> (cell 4), and the class \<^verbatim>\<open>Agent\<close> with its method \<^verbatim>\<open>forward\<close> (cell 5).

  A Python string is a sequence of Unicode code points. It is modelled by the HOL string
  (a list of 8-bit characters) that is its UTF-8 encoding, a surrogate code point being
  encoded like any other: an ASCII character is one byte below 0x80, any other code point
  is two to four bytes from 0x80 on. The encoding is one-to-one, and a byte below 0x80
  occurs in it only as the ASCII character it is; so equality, dictionary lookup,
  \<^verbatim>\<open>strip\<close>, \<^verbatim>\<open>rstrip\<close> and \<^verbatim>\<open>replace\<close> with ASCII arguments, and \<^verbatim>\<open>rsplit\<close> at an
  ASCII separator are the same on the encoding as on the string.
\<close>

subsection \<open>String methods\<close>

text \<open>\<^verbatim>\<open>s.lstrip(chars)\<close>, \<^verbatim>\<open>s.rstrip(chars)\<close> and \<^verbatim>\<open>s.strip(chars)\<close>: the argument is a
  set of characters, and every leading (trailing) character that belongs to the set is
  removed.\<close>

definition py_lstrip :: "string \<Rightarrow> string \<Rightarrow> string" where
  "py_lstrip chars s = dropWhile (\<lambda>c. c \<in> set chars) s"

definition py_rstrip :: "string \<Rightarrow> string \<Rightarrow> string" where
  "py_rstrip chars s = rev (dropWhile (\<lambda>c. c \<in> set chars) (rev s))"

definition py_strip :: "string \<Rightarrow> string \<Rightarrow> string" where
  "py_strip chars s = py_rstrip chars (py_lstrip chars s)"

text \<open>\<^verbatim>\<open>s.replace(",", "")\<close>: every occurrence of the one-character pattern is removed.\<close>

definition remove_char :: "char \<Rightarrow> string \<Rightarrow> string" where
  "remove_char c s = filter (\<lambda>x. x \<noteq> c) s"

text \<open>\<^verbatim>\<open>s.lower()\<close>. On a string of ASCII characters it changes the letters A to Z to
  a to z and nothing else. On any other string it is the case mapping of the Unicode
  database, which works on more than one character at a time (the capital sigma at the
  end of a word, a dotted capital I); that part belongs to the Python library and is a
  parameter of the model, \<open>unicode_lower\<close>, used for the strings that are not ASCII.\<close>

definition upper_letters :: string where
  "upper_letters = ''ABCDEFGHIJKLMNOPQRSTUVWXYZ''"

definition lower_letters :: string where
  "lower_letters = ''abcdefghijklmnopqrstuvwxyz''"


definition ascii_lower_char :: "char \<Rightarrow> char" where
  "ascii_lower_char c =
     (case map_of (zip upper_letters lower_letters) c of Some l \<Rightarrow> l | None \<Rightarrow> c)"

definition is_ascii_char :: "char \<Rightarrow> bool" where
  "is_ascii_char c = (\<not> digit7 c)"

definition is_ascii :: "string \<Rightarrow> bool" where
  "is_ascii s = list_all is_ascii_char s"

definition py_lower :: "(string \<Rightarrow> string) \<Rightarrow> string \<Rightarrow> string" where
  "py_lower unicode_lower s =
     (if is_ascii s then map ascii_lower_char s else unicode_lower s)"

subsection \<open>The evaluation metric (cell 4)\<close>

text \<open>
  \<^verbatim>\<open>
  def metric(example, pred, trace=None):
      gold = str(example.answer).rstrip(".0").replace(",", "").lower()
      pred = str(pred.answer).rstrip(".0").replace(",", "").lower()
      return pred == gold
  \<close>
  The last two arguments of the model are the strings \<^verbatim>\<open>str(example.answer)\<close> and
  \<^verbatim>\<open>str(pred.answer)\<close>; \<^verbatim>\<open>trace\<close> is not used by the body. The first argument is
  the parameter of \<open>py_lower\<close>.
\<close>

definition normalize_answer :: "(string \<Rightarrow> string) \<Rightarrow> string \<Rightarrow> string" where
  "normalize_answer unicode_lower a =
     py_lower unicode_lower (remove_char CHR '','' (py_rstrip ''.0'' a))"

definition metric :: "(string \<Rightarrow> string) \<Rightarrow> string \<Rightarrow> string \<Rightarrow> bool" where
  "metric unicode_lower example_answer pred_answer =
     (let gold = normalize_answer unicode_lower example_answer;
          pred = normalize_answer unicode_lower pred_answer
      in pred = gold)"

text \<open>The normalisation in the words of the specification: remove one trailing
  \<^verbatim>\<open>.0\<close> suffix and nothing more, remove the commas, lowercase.\<close>

definition strip_suffix_dot_zero :: "string \<Rightarrow> string" where
  "strip_suffix_dot_zero a =
     (if suffix ''.0'' a then take (length a - 2) a else a)"

definition spec_normalize :: "(string \<Rightarrow> string) \<Rightarrow> string \<Rightarrow> string" where
  "spec_normalize unicode_lower a =
     py_lower unicode_lower (remove_char CHR '','' (strip_suffix_dot_zero a))"

definition spec_metric :: "(string \<Rightarrow> string) \<Rightarrow> string \<Rightarrow> string \<Rightarrow> bool" where
  "spec_metric unicode_lower example_answer pred_answer =
     (spec_normalize unicode_lower pred_answer = spec_normalize unicode_lower example_answer)"



subsection \<open>Python values, tool calls and exceptions\<close>

text \<open>The values that tools take and return: \<^verbatim>\<open>None\<close>, strings and integers. Keyword
  arguments (\<^verbatim>\<open>**kwargs\<close>, the dictionary \<^verbatim>\<open>pred.args\<close>) are association lists in
  insertion order; a dictionary has each key once.\<close>

datatype pyval = PyNone | PyStr string | PyInt int

type_synonym kwargs = "(string \<times> pyval) list"

text \<open>A Python function may read and change whatever it can reach: global variables,
  files, counters. All of that is the state of the world, of type \<open>'w\<close>, which a call
  takes and gives back changed. What one call does, as far as the notebook can observe it:
  it finishes after some number of time units (seconds, for \<^verbatim>\<open>func_set_timeout\<close>),
  either returning a value or raising an instance of \<^verbatim>\<open>Exception\<close> whose \<^verbatim>\<open>str\<close>
  is the given message, and leaves the world in a new state; or it never finishes.
  Exceptions outside the class \<^verbatim>\<open>Exception\<close> (\<^verbatim>\<open>SystemExit\<close>,
  \<^verbatim>\<open>KeyboardInterrupt\<close>) are not modelled.\<close>

datatype 'r outcome = Return 'r | Raise string

datatype ('r, 'w) run = Finishes nat "'r outcome" 'w | Hangs

text \<open>The exceptions that reach the caller of the notebook's own code.\<close>

datatype exn =
    KeyError string
  | UnboundLocalError string
  | AssertionError string
  | FunctionTimedOut
  | Exception string

text \<open>A function object: its identity (two function objects are the same object exactly
  when they have the same identity), what \<^verbatim>\<open>inspect\<close> reports about it, and what
  calling it with keyword arguments does in a given state of the world.\<close>

record 'w tool =
  ident :: nat
  f_name :: string
  f_signature :: string
  f_doc :: "string option"
  call :: "kwargs \<Rightarrow> 'w \<Rightarrow> (pyval, 'w) run"

subsection \<open>The finish tool (cell 3)\<close>

text \<open>
  \<^verbatim>\<open>
  def finish(answer: str):
      """Conclude the trajectory and return the final answer."""
      return answer
  \<close>
  Called as \<^verbatim>\<open>finish(**kwargs)\<close>: a keyword other than \<^verbatim>\<open>answer\<close> is a
  \<^verbatim>\<open>TypeError\<close>, and so is a missing \<^verbatim>\<open>answer\<close>; the annotation \<^verbatim>\<open>str\<close> is not
  enforced. The call takes no measurable time and leaves the world as it is.
\<close>

definition finish_call :: "kwargs \<Rightarrow> 'w \<Rightarrow> (pyval, 'w) run" where
  "finish_call kw w =
     (case filter (\<lambda>(k, v). k \<noteq> ''answer'') kw of
        (k, v) # rest \<Rightarrow>
          Finishes 0 (Raise (''finish() got an unexpected keyword argument '' @
                             [CHR 0x27] @ k @ [CHR 0x27])) w
      | [] \<Rightarrow>
          (case map_of kw ''answer'' of
             None \<Rightarrow>
               Finishes 0 (Raise (''finish() missing 1 required positional argument: '' @
                                  [CHR 0x27] @ ''answer'' @ [CHR 0x27])) w
           | Some answer \<Rightarrow> Finishes 0 (Return answer) w))"

definition finish :: "'w tool" where
  "finish =
     \<lparr>ident = 0, f_name = ''finish'', f_signature = ''(answer: str)'',
      f_doc = Some ''Conclude the trajectory and return the final answer.'',
      call = finish_call\<rparr>"

subsection \<open>Timeout-wrapped invocation and tool metadata (cell 4)\<close>

text \<open>
  \<^verbatim>\<open>
  def wrap_function_with_timeout(fn):
      @func_set_timeout(10)
      def wrapper(*args, **kwargs):
          try:
              return {"return_value": fn(*args, **kwargs), "errors": None}
          except Exception as e:
              return {"return_value": None, "errors": str(e)}
      return wrapper
  \<close>
\<close>

record fn_output =
  return_value :: pyval
  errors :: "string option"

text \<open>The undecorated \<^verbatim>\<open>wrapper\<close>: the \<^verbatim>\<open>try\<close> block around the one call of \<^verbatim>\<open>fn\<close>.
  It finishes when \<^verbatim>\<open>fn\<close> does, in the state of the world in which \<^verbatim>\<open>fn\<close> left it,
  and never raises an \<^verbatim>\<open>Exception\<close> itself.\<close>

definition wrapper ::
  "(kwargs \<Rightarrow> 'w \<Rightarrow> (pyval, 'w) run) \<Rightarrow> kwargs \<Rightarrow> 'w \<Rightarrow> (fn_output, 'w) run" where
  "wrapper fn kw w =
     (case fn kw w of
        Hangs \<Rightarrow> Hangs
      | Finishes t (Return v) w' \<Rightarrow>
          Finishes t (Return \<lparr>return_value = v, errors = None\<rparr>) w'
      | Finishes t (Raise e) w' \<Rightarrow>
          Finishes t (Return \<lparr>return_value = PyNone, errors = Some e\<rparr>) w')"

text \<open>The decorator \<^verbatim>\<open>func_set_timeout\<close> comes from the package \<^verbatim>\<open>func_timeout\<close>, which
  the notebook imports and which is not part of the repository. It is modelled from that
  package's documented behaviour: the decorated function runs with the given timeout; a
  call that has not finished when the timeout has passed is stopped and
  \<^verbatim>\<open>FunctionTimedOut\<close> is raised to the caller; a call that finishes in time returns
  what the function returned or raises what it raised. A call is in time when it takes at
  most \<open>timeout\<close> time units. An exception leaves \<^verbatim>\<open>forward\<close>, so the model keeps no
  state of the world with it.\<close>

definition func_set_timeout ::
  "nat \<Rightarrow> ('a \<Rightarrow> 'w \<Rightarrow> ('r, 'w) run) \<Rightarrow> 'a \<Rightarrow> 'w \<Rightarrow> exn + 'r \<times> 'w" where
  "func_set_timeout timeout f x w =
     (case f x w of
        Hangs \<Rightarrow> Inl FunctionTimedOut
      | Finishes t out w' \<Rightarrow>
          if timeout < t then Inl FunctionTimedOut
          else (case out of Return r \<Rightarrow> Inr (r, w') | Raise e \<Rightarrow> Inl (Exception e)))"

definition wrap_function_with_timeout ::
  "'w tool \<Rightarrow> kwargs \<Rightarrow> 'w \<Rightarrow> exn + fn_output \<times> 'w" where
  "wrap_function_with_timeout fn = func_set_timeout 10 (wrapper (call fn))"

text \<open>
  \<^verbatim>\<open>
  def fn_metadata(func):
      signature = inspect.signature(func)
      docstring = inspect.getdoc(func) or "No docstring."
      return dict(function_name=func.__name__, arguments=str(signature), docstring=docstring)
  \<close>
\<close>

record metadata =
  function_name :: string
  arguments :: string
  docstring :: string

definition fn_metadata :: "'w tool \<Rightarrow> metadata" where
  "fn_metadata func =
     (let signature = f_signature func;
          docstring = (case f_doc func of
                         None \<Rightarrow> ''No docstring.''
                       | Some d \<Rightarrow> if d = [] then ''No docstring.'' else d)
      in \<lparr>function_name = f_name func, arguments = signature, docstring = docstring\<rparr>)"

subsection \<open>The agent (cell 5)\<close>

text \<open>
  \<^verbatim>\<open>
  def forward(self, question, functions):
      tools = {fn_name: fn_metadata(fn) for fn_name, fn in functions.items()}
      trajectory = []

      for _ in range(self.max_steps):
          pred = self.react(question=question, trajectory=trajectory, functions=tools)
          selected_fn = pred.next_selected_fn.strip('"').strip("'")
          fn_output = wrap_function_with_timeout(functions[selected_fn])(**pred.args)
          trajectory.append(dict(reasoning=pred.reasoning, selected_fn=selected_fn, args=pred.args, **fn_output))

          if selected_fn == "finish":
              break

      return dspy.Prediction(answer=fn_output.get("return_value", ''), trajectory=trajectory)
  \<close>
  The reasoning component \<^verbatim>\<open>self.react\<close> is a language-model call; it is a parameter of
  the model, a function of the three arguments it is given. Within one run it is never
  called twice on the same trajectory, so this covers every sequence of outputs.
\<close>

record pred =
  reasoning :: string
  next_selected_fn :: string
  args :: kwargs

record trajectory_step =
  t_reasoning :: string
  t_selected_fn :: string
  t_args :: kwargs
  t_return_value :: pyval
  t_errors :: "string option"

record prediction =
  answer :: pyval
  trajectory :: "trajectory_step list"

type_synonym react = "string \<Rightarrow> trajectory_step list \<Rightarrow> (string \<times> metadata) list \<Rightarrow> pred"

text \<open>\<^verbatim>\<open>pred.next_selected_fn.strip('"').strip("'")\<close>\<close>

definition normalize_fn_name :: "string \<Rightarrow> string" where
  "normalize_fn_name name = py_strip [CHR 0x27] (py_strip [CHR 0x22] name)"

text \<open>The dictionary appended to the trajectory.\<close>

definition make_step :: "pred \<Rightarrow> string \<Rightarrow> fn_output \<Rightarrow> trajectory_step" where
  "make_step p selected_fn out =
     \<lparr>t_reasoning = reasoning p, t_selected_fn = selected_fn, t_args = args p,
      t_return_value = return_value out, t_errors = errors out\<rparr>"

text \<open>One pass through the body of the \<^verbatim>\<open>for\<close> loop, from the trajectory so far
  (\<open>traj\<close> is the list \<^verbatim>\<open>trajectory\<close>) and the state of the world. The pass ends in
  one of three ways: an exception leaves \<^verbatim>\<open>forward\<close>, or \<^verbatim>\<open>break\<close> leaves the loop,
  or the end of the body is reached; in the last two cases \<^verbatim>\<open>fn_output\<close> and
  \<^verbatim>\<open>trajectory\<close> have new values and the world is in the state in which the one wrapped
  call left it. The lookup \<^verbatim>\<open>functions[selected_fn]\<close> is outside every \<^verbatim>\<open>try\<close>.\<close>

datatype 'a flow = Raised exn | Break 'a | Continue 'a

definition loop_body ::
  "react \<Rightarrow> string \<Rightarrow> (string \<times> 'w tool) list \<Rightarrow> (string \<times> metadata) list \<Rightarrow>
   trajectory_step list \<Rightarrow> 'w \<Rightarrow> (fn_output \<times> trajectory_step list \<times> 'w) flow" where
  "loop_body react question functions tools traj w =
     (let p = react question traj tools;
          selected_fn = normalize_fn_name (next_selected_fn p)
      in case map_of functions selected_fn of
           None \<Rightarrow> Raised (KeyError selected_fn)
         | Some fn \<Rightarrow>
             (case wrap_function_with_timeout fn (args p) w of
                Inl e \<Rightarrow> Raised e
              | Inr (out, w') \<Rightarrow>
                  (let traj' = traj @ [make_step p selected_fn out]
                   in if selected_fn = ''finish'' then Break (out, traj', w')
                      else Continue (out, traj', w'))))"

text \<open>The \<^verbatim>\<open>for\<close> loop, by recursion on the number of iterations that \<^verbatim>\<open>range\<close> still
  has to give. The local variable \<^verbatim>\<open>fn_output\<close> is unbound (\<open>None\<close>) until the first
  assignment. The result is the pair of the number of iterations that were started and
  of the way the loop ended: an exception, or the two local variables and the state of
  the world after the loop.\<close>

fun forward_loop ::
  "react \<Rightarrow> string \<Rightarrow> (string \<times> 'w tool) list \<Rightarrow> (string \<times> metadata) list \<Rightarrow> nat \<Rightarrow>
   trajectory_step list \<Rightarrow> fn_output option \<Rightarrow> 'w \<Rightarrow>
   nat \<times> (exn + fn_output option \<times> trajectory_step list \<times> 'w)" where
  "forward_loop react question functions tools 0 traj fn_output w =
     (0, Inr (fn_output, traj, w))"
| "forward_loop react question functions tools (Suc n) traj fn_output w =
     (case loop_body react question functions tools traj w of
        Raised e \<Rightarrow> (1, Inl e)
      | Break (out, traj', w') \<Rightarrow> (1, Inr (Some out, traj', w'))
      | Continue (out, traj', w') \<Rightarrow>
          (case forward_loop react question functions tools n traj' (Some out) w' of
             (k, r) \<Rightarrow> (Suc k, r)))"

text \<open>The \<^verbatim>\<open>return\<close> statement: reading the unbound \<^verbatim>\<open>fn_output\<close> raises
  \<^verbatim>\<open>UnboundLocalError\<close>. The key \<^verbatim>\<open>return_value\<close> is in every dictionary that the
  wrapper returns, so the default of \<^verbatim>\<open>get\<close> is never taken.\<close>

definition make_prediction ::
  "fn_output option \<times> trajectory_step list \<Rightarrow> exn + prediction" where
  "make_prediction vars =
     (case vars of
        (None, traj) \<Rightarrow> Inl (UnboundLocalError ''fn_output'')
      | (Some out, traj) \<Rightarrow>
          Inr \<lparr>answer = return_value out, trajectory = traj\<rparr>)"

definition tools_of :: "(string \<times> 'w tool) list \<Rightarrow> (string \<times> metadata) list" where
  "tools_of functions = map (\<lambda>(fn_name, fn). (fn_name, fn_metadata fn)) functions"

text \<open>The value of \<^verbatim>\<open>forward\<close>, called in the state \<open>w\<close> of the world: an exception or
  the prediction.\<close>

definition Agent_forward ::
  "int \<Rightarrow> react \<Rightarrow> string \<Rightarrow> (string \<times> 'w tool) list \<Rightarrow> 'w \<Rightarrow> exn + prediction" where
  "Agent_forward max_steps react question functions w =
     (case snd (forward_loop react question functions (tools_of functions)
                  (nat max_steps) [] None w) of
        Inl e \<Rightarrow> Inl e
      | Inr (fn_output, traj, w') \<Rightarrow> make_prediction (fn_output, traj))"

text \<open>The number of loop iterations that a run of \<^verbatim>\<open>forward\<close> starts.\<close>

definition forward_iterations ::
  "int \<Rightarrow> react \<Rightarrow> string \<Rightarrow> (string \<times> 'w tool) list \<Rightarrow> 'w \<Rightarrow> nat" where
  "forward_iterations max_steps react question functions w =
     fst (forward_loop react question functions (tools_of functions) (nat max_steps) [] None w)"

subsection \<open>The tool registry, the examples and the split (cells 2 and 3)\<close>

text \<open>
  \<^verbatim>\<open>
  random.Random(0).shuffle(data)

  examples = []
  fns2code = {}

  for datapoint in data:
      func_dict = {}
      for func_code in datapoint["functions"]:
          cleaned_code = func_code.rsplit("\n\n# Example usage", 1)[0]
          fn_name = re.search(r"^\s*def\s+([a-zA-Z0-9_]+)\s*\(", cleaned_code)
          fn_name = fn_name.group(1) if fn_name else None

          if not fn_name:
              continue

          local_vars = {}
          exec(cleaned_code, {}, local_vars)
          fn_obj = local_vars.get(fn_name)

          if callable(fn_obj):
              func_dict[fn_name] = fn_obj
              assert fn_obj not in fns2code, f"Duplicate function found: {fn_name}"
              fns2code[fn_obj] = (fn_name, cleaned_code)

      func_dict["finish"] = finish

      example = dspy.Example(question=datapoint["question"], answer=datapoint["answer"], functions=func_dict)
      examples.append(example.with_inputs("question", "functions"))

  trainset, devset, testset = examples[:100], examples[100:400], examples[400:]
  \<close>
\<close>

definition example_usage_marker :: string where
  "example_usage_marker = [CHR 0x0A, CHR 0x0A] @ ''# Example usage''"

text \<open>\<^verbatim>\<open>s.rsplit(sep, 1)[0]\<close> for a separator that is not empty: the text before the last
  occurrence of the separator, and all of \<^verbatim>\<open>s\<close> when it does not occur.\<close>

fun before_last :: "string \<Rightarrow> string \<Rightarrow> string option" where
  "before_last sep [] = None"
| "before_last sep (c # cs) =
     (case before_last sep cs of
        Some p \<Rightarrow> Some (c # p)
      | None \<Rightarrow> if prefix sep (c # cs) then Some [] else None)"

definition rsplit1_head :: "string \<Rightarrow> string \<Rightarrow> string" where
  "rsplit1_head sep s = (case before_last sep s of Some p \<Rightarrow> p | None \<Rightarrow> s)"

text \<open>\<^verbatim>\<open>cleaned_code = func_code.rsplit("\n\n# Example usage", 1)[0]\<close>\<close>

definition clean_code :: "string \<Rightarrow> string" where
  "clean_code func_code = rsplit1_head example_usage_marker func_code"

text \<open>The character classes of the regular expression. On a string, \<^verbatim>\<open>\s\<close> matches the
  code points that Python counts as whitespace: U+0009 to U+000D, U+001C to U+0020,
  U+0085, U+00A0, U+1680, U+2000 to U+200A, U+2028, U+2029, U+202F, U+205F and U+3000.
  The three tables hold their UTF-8 encodings, of one, two and three bytes. The name is
  made of \<^verbatim>\<open>[a-zA-Z0-9_]\<close>.\<close>

definition spaces1 :: "char list" where
  "spaces1 =
     [CHR 0x09, CHR 0x0A, CHR 0x0B, CHR 0x0C, CHR 0x0D,
      CHR 0x1C, CHR 0x1D, CHR 0x1E, CHR 0x1F, CHR 0x20]"

definition spaces2 :: "(char \<times> char) list" where
  "spaces2 = [(CHR 0xC2, CHR 0x85), (CHR 0xC2, CHR 0xA0)]"

definition spaces3 :: "(char \<times> char \<times> char) list" where
  "spaces3 =
     [(CHR 0xE1, CHR 0x9A, CHR 0x80),
      (CHR 0xE2, CHR 0x80, CHR 0x80), (CHR 0xE2, CHR 0x80, CHR 0x81),
      (CHR 0xE2, CHR 0x80, CHR 0x82), (CHR 0xE2, CHR 0x80, CHR 0x83),
      (CHR 0xE2, CHR 0x80, CHR 0x84), (CHR 0xE2, CHR 0x80, CHR 0x85),
      (CHR 0xE2, CHR 0x80, CHR 0x86), (CHR 0xE2, CHR 0x80, CHR 0x87),
      (CHR 0xE2, CHR 0x80, CHR 0x88), (CHR 0xE2, CHR 0x80, CHR 0x89),
      (CHR 0xE2, CHR 0x80, CHR 0x8A),
      (CHR 0xE2, CHR 0x80, CHR 0xA8), (CHR 0xE2, CHR 0x80, CHR 0xA9),
      (CHR 0xE2, CHR 0x80, CHR 0xAF), (CHR 0xE2, CHR 0x81, CHR 0x9F),
      (CHR 0xE3, CHR 0x80, CHR 0x80)]"

text \<open>What is left of a text after the greedy \<^verbatim>\<open>\s*\<close> has taken all the whitespace
  at its start.\<close>

fun skip_spaces :: "string \<Rightarrow> string" where
  "skip_spaces (a # b # c # rest) =
     (if a \<in> set spaces1 then skip_spaces (b # c # rest)
      else if (a, b) \<in> set spaces2 then skip_spaces (c # rest)
      else if (a, b, c) \<in> set spaces3 then skip_spaces rest
      else a # b # c # rest)"
| "skip_spaces [a, b] =
     (if a \<in> set spaces1 then skip_spaces [b]
      else if (a, b) \<in> set spaces2 then []
      else [a, b])"
| "skip_spaces [a] = (if a \<in> set spaces1 then [] else [a])"
| "skip_spaces [] = []"

definition is_ident_char :: "char \<Rightarrow> bool" where
  "is_ident_char c = (c \<in> set (lower_letters @ upper_letters @ ''0123456789_''))"

text \<open>\<^verbatim>\<open>re.search(r"^\s*def\s+([a-zA-Z0-9_]+)\s*\(", code)\<close> followed by \<^verbatim>\<open>group(1)\<close>.
  Without the flag \<^verbatim>\<open>MULTILINE\<close> the anchor \<^verbatim>\<open>^\<close> is the start of the text. The
  classes that follow one another are disjoint, so the greedy match is the only one;
  \<^verbatim>\<open>\s+\<close> fails exactly when skipping the whitespace leaves the text as it was.\<close>

definition search_fn_name :: "string \<Rightarrow> string option" where
  "search_fn_name code =
     (let s1 = skip_spaces code in
      if prefix ''def'' s1 then
        let s2 = drop 3 s1;
            s3 = skip_spaces s2;
            name = takeWhile is_ident_char s3;
            s4 = skip_spaces (dropWhile is_ident_char s3)
        in if s3 = s2 then None
           else if name = [] then None
           else if prefix ''('' s4 then Some name
           else None
      else None)"

text \<open>What \<^verbatim>\<open>exec\<close> leaves in \<^verbatim>\<open>local_vars\<close> binds names to objects, callable or
  not.\<close>

datatype 'w pyobj = Function "'w tool" | Value pyval

text \<open>Running Python source text is outside the model: \<^verbatim>\<open>exec\<close> is a parameter. It is
  given the state of the world and the source text, and it either raises or gives the
  new local variables and the new state. The state lets every call create new function
  objects, as Python does.\<close>

type_synonym 'w exec = "'w \<Rightarrow> string \<Rightarrow> exn + (string \<times> 'w pyobj) list \<times> 'w"

text \<open>The dictionary \<^verbatim>\<open>fns2code\<close> has function objects as keys; Python hashes and
  compares them by identity, so the model keeps the identity as the key.\<close>

type_synonym fns2code = "(nat \<times> string \<times> string) list"

type_synonym 'w func_dict = "(string \<times> 'w tool) list"

text \<open>The inner loop, over the source texts of one data point.\<close>

fun register_functions ::
  "'w exec \<Rightarrow> string list \<Rightarrow> 'w \<Rightarrow> fns2code \<Rightarrow> 'w func_dict \<Rightarrow>
   exn + 'w \<times> fns2code \<times> 'w func_dict" where
  "register_functions exec [] w fns2code func_dict = Inr (w, fns2code, func_dict)"
| "register_functions exec (func_code # rest) w fns2code func_dict =
     (let cleaned_code = clean_code func_code in
      case search_fn_name cleaned_code of
        None \<Rightarrow> register_functions exec rest w fns2code func_dict
      | Some fn_name \<Rightarrow>
          (case exec w cleaned_code of
             Inl e \<Rightarrow> Inl e
           | Inr (local_vars, w') \<Rightarrow>
               (case map_of local_vars fn_name of
                  Some (Function fn_obj) \<Rightarrow>
                    if map_of fns2code (ident fn_obj) = None
                    then register_functions exec rest w'
                           (AList.update (ident fn_obj) (fn_name, cleaned_code) fns2code)
                           (AList.update fn_name fn_obj func_dict)
                    else Inl (AssertionError (''Duplicate function found: '' @ fn_name))
                | _ \<Rightarrow> register_functions exec rest w' fns2code func_dict)))"

record datapoint =
  dp_question :: string
  dp_answer :: string
  dp_functions :: "string list"

record 'w example =
  ex_question :: string
  ex_answer :: string
  ex_functions :: "'w func_dict"

text \<open>The outer loop, over the data points; \<open>exs\<close> is the list \<^verbatim>\<open>examples\<close>.\<close>

fun prepare_examples ::
  "'w exec \<Rightarrow> datapoint list \<Rightarrow> 'w \<Rightarrow> fns2code \<Rightarrow> 'w example list \<Rightarrow>
   exn + 'w example list \<times> fns2code \<times> 'w" where
  "prepare_examples exec [] w fns2code exs = Inr (exs, fns2code, w)"
| "prepare_examples exec (dp # data) w fns2code exs =
     (case register_functions exec (dp_functions dp) w fns2code [] of
        Inl e \<Rightarrow> Inl e
      | Inr (w', fns2code', func_dict) \<Rightarrow>
          (let func_dict' = AList.update ''finish'' finish func_dict;
               ex = \<lparr>ex_question = dp_question dp, ex_answer = dp_answer dp,
                     ex_functions = func_dict'\<rparr>
           in prepare_examples exec data w' fns2code' (exs @ [ex])))"

text \<open>The slice \<^verbatim>\<open>xs[lo:hi]\<close> for \<open>0 \<le> lo \<le> hi\<close>, and the three splits.\<close>

definition py_slice :: "nat \<Rightarrow> nat \<Rightarrow> 'a list \<Rightarrow> 'a list" where
  "py_slice lo hi xs = take (hi - lo) (drop lo xs)"

definition split_examples :: "'a list \<Rightarrow> 'a list \<times> 'a list \<times> 'a list" where
  "split_examples exs = (py_slice 0 100 exs, py_slice 100 400 exs, drop 400 exs)"

text \<open>Cells 2 and 3 together. The seeded shuffle \<^verbatim>\<open>random.Random(seed).shuffle\<close> of the
  standard library is a parameter: a function of the seed and of the list. The notebook
  fixes the seed to 0.\<close>

definition notebook_seed :: int where
  "notebook_seed = 0"

definition load_splits ::
  "(int \<Rightarrow> datapoint list \<Rightarrow> datapoint list) \<Rightarrow> int \<Rightarrow> 'w exec \<Rightarrow> 'w \<Rightarrow> datapoint list \<Rightarrow>
   exn + 'w example list \<times> 'w example list \<times> 'w example list" where
  "load_splits shuffle seed exec w data0 =
     (let data = shuffle seed data0 in
      case prepare_examples exec data w [] [] of
        Inl e \<Rightarrow> Inl e
      | Inr (exs, fns2code, w') \<Rightarrow> Inr (split_examples exs))"

text \<open>The question and the answer of a data point, and of the example made from it.\<close>

definition dp_key :: "datapoint \<Rightarrow> string \<times> string" where
  "dp_key dp = (dp_question dp, dp_answer dp)"

definition ex_key :: "'w example \<Rightarrow> string \<times> string" where
  "ex_key ex = (ex_question ex, ex_answer ex)"

subsection \<open>The head of the loop\<close>

text \<open>The local variables \<^verbatim>\<open>trajectory\<close> and \<^verbatim>\<open>fn_output\<close> and the state of the world
  with which a run of \<^verbatim>\<open>forward\<close>, called in the state \<open>w0\<close>, enters iteration number
  \<open>i\<close> (counted from 0), when \<^verbatim>\<open>max_steps\<close> is larger than \<open>i\<close>; \<open>None\<close> when an
  earlier iteration raised or left the loop.\<close>

fun loop_head ::
  "react \<Rightarrow> string \<Rightarrow> (string \<times> 'w tool) list \<Rightarrow> (string \<times> metadata) list \<Rightarrow> 'w \<Rightarrow> nat \<Rightarrow>
   (trajectory_step list \<times> fn_output option \<times> 'w) option" where
  "loop_head react question functions tools w0 0 = Some ([], None, w0)"
| "loop_head react question functions tools w0 (Suc i) =
     (case loop_head react question functions tools w0 i of
        None \<Rightarrow> None
      | Some (traj, fn_output, w) \<Rightarrow>
          (case loop_body react question functions tools traj w of
             Continue (out, traj', w') \<Rightarrow> Some (traj', Some out, w')
           | _ \<Rightarrow> None))"

subsection \<open>Sample tools, reasoning components and source texts\<close>

text \<open>A sample world: the number of function objects that \<^verbatim>\<open>exec\<close> has created and the
  number of calls that the sample tools have received.\<close>

record world =
  objects :: nat
  calls :: nat

definition count_call :: "world \<Rightarrow> world" where
  "count_call w = w\<lparr>calls := Suc (calls w)\<rparr>"

text \<open>Sample tools, each of which counts the call it receives: one that raises
  \<^verbatim>\<open>ValueError("boom")\<close> after one time unit, one that sleeps for eleven time units and
  returns \<^verbatim>\<open>None\<close>, and one that adds two integers. The built-in \<^verbatim>\<open>len\<close>, which takes
  no keyword arguments.\<close>

definition failing_tool :: "world tool" where
  "failing_tool =
     \<lparr>ident = 2, f_name = ''fail'', f_signature = ''()'', f_doc = None,
      call = (\<lambda>kw w. Finishes 1 (Raise ''boom'') (count_call w))\<rparr>"

definition slow_tool :: "world tool" where
  "slow_tool =
     \<lparr>ident = 3, f_name = ''slow'', f_signature = ''()'', f_doc = None,
      call = (\<lambda>kw w. Finishes 11 (Return PyNone) (count_call w))\<rparr>"

definition add_call :: "kwargs \<Rightarrow> world \<Rightarrow> (pyval, world) run" where
  "add_call kw w =
     (case (map_of kw ''a'', map_of kw ''b'') of
        (Some (PyInt a), Some (PyInt b)) \<Rightarrow> Finishes 1 (Return (PyInt (a + b))) (count_call w)
      | _ \<Rightarrow> Finishes 1 (Raise ''bad operands'') (count_call w))"

definition add_tool :: "nat \<Rightarrow> world tool" where
  "add_tool i =
     \<lparr>ident = i, f_name = ''add'', f_signature = ''(a, b)'', f_doc = None,
      call = add_call\<rparr>"

definition len_builtin :: "world tool" where
  "len_builtin =
     \<lparr>ident = 1, f_name = ''len'', f_signature = ''(obj, /)'',
      f_doc = Some ''Return the number of items in a container.'',
      call = (\<lambda>kw w. Finishes 0 (Raise (if kw = []
                 then ''len() takes exactly one argument (0 given)''
                 else ''len() takes no keyword arguments'')) w)\<rparr>"

text \<open>A reasoning component that gives the same output at every call, and one that
  follows a script: output number \<open>i\<close> of the list at the call that sees a trajectory
  of length \<open>i\<close>, and a fixed output once the script is used up.\<close>

definition react_always :: "pred \<Rightarrow> react" where
  "react_always p = (\<lambda>question traj tools. p)"

definition react_script :: "pred list \<Rightarrow> pred \<Rightarrow> react" where
  "react_script ps d =
     (\<lambda>question traj tools. if length traj < length ps then ps ! length traj else d)"

definition select :: "string \<Rightarrow> kwargs \<Rightarrow> pred" where
  "select name kw = \<lparr>reasoning = ''next'', next_selected_fn = name, args = kw\<rparr>"

text \<open>What \<^verbatim>\<open>exec\<close> does on five source texts: a definition of \<^verbatim>\<open>add\<close>; a text that is
  not valid Python; a text that defines \<^verbatim>\<open>f\<close> and then binds \<^verbatim>\<open>f\<close> to 1; a text
  that defines \<^verbatim>\<open>size\<close> and then binds \<^verbatim>\<open>size\<close> to the built-in \<^verbatim>\<open>len\<close>; and a
  definition after a no-break space (U+00A0), which the regular expression accepts as
  whitespace and Python does not. Every \<^verbatim>\<open>def\<close> that runs creates a function object, with
  an identity that was not in use. A sixth text starts with an import, so that no name is
  found in it and \<^verbatim>\<open>exec\<close> is not called on it. On other texts the sample is not meant to
  follow Python.\<close>

definition code_add :: string where
  "code_add = ''def add(a, b): return a + b''"

definition code_syntax_error :: string where
  "code_syntax_error = ''def f(:''"

definition code_rebound :: string where
  "code_rebound = ''def f(): pass'' @ [CHR 0x0A] @ ''f = 1''"

definition code_alias :: string where
  "code_alias = ''def size(x): pass'' @ [CHR 0x0A] @ ''size = len''"

definition code_nbsp :: string where
  "code_nbsp = [CHR 0xC2, CHR 0xA0] @ ''def f(): pass''"

definition code_import_first :: string where
  "code_import_first = ''import math'' @ [CHR 0x0A] @ ''def area(r): return math.pi * r * r''"

definition new_object :: "world \<Rightarrow> world" where
  "new_object w = w\<lparr>objects := Suc (objects w)\<rparr>"

definition exec_sample :: "world exec" where
  "exec_sample w code =
     (if code = code_add
      then Inr ([(''add'', Function (add_tool (10 + objects w)))], new_object w)
      else if code = code_syntax_error
      then Inl (Exception ''invalid syntax (<string>, line 1)'')
      else if code = code_rebound then Inr ([(''f'', Value (PyInt 1))], new_object w)
      else if code = code_alias then Inr ([(''size'', Function len_builtin)], new_object w)
      else if code = code_nbsp
      then Inl (Exception ''invalid non-printable character U+00A0 (<string>, line 1)'')
      else Inr ([], w))"

text \<open>Three data points, and a shuffle that reverses the list whatever the seed is.\<close>

definition data_sample :: "datapoint list" where
  "data_sample =
     [\<lparr>dp_question = ''q1'', dp_answer = ''a1'', dp_functions = [code_add]\<rparr>,
      \<lparr>dp_question = ''q2'', dp_answer = ''a2'', dp_functions = [code_import_first]\<rparr>,
      \<lparr>dp_question = ''q3'', dp_answer = ''a3'', dp_functions = [code_rebound, code_add]\<rparr>]"

definition shuffle_sample :: "int \<Rightarrow> datapoint list \<Rightarrow> datapoint list" where
  "shuffle_sample seed xs = rev xs"


section \<open>Properties\<close>

subsection \<open>The metric\<close>

lemmas metric_unfold =
  metric_def normalize_answer_def py_rstrip_def remove_char_def py_lower_def
  is_ascii_def is_ascii_char_def ascii_lower_char_def upper_letters_def lower_letters_def

lemmas spec_metric_unfold =
  spec_metric_def spec_normalize_def strip_suffix_dot_zero_def suffix_def remove_char_def
  py_lower_def is_ascii_def is_ascii_char_def ascii_lower_char_def upper_letters_def
  lower_letters_def















text \<open>
  Claim C2. The specification says that \<^verbatim>\<open>metric\<close> compares the two answers after
  removing a trailing \<^verbatim>\<open>.0\<close> suffix and nothing more than that suffix, removing the
  commas and lowercasing. The code calls \<^verbatim>\<open>rstrip(".0")\<close>, which removes every trailing
  dot and every trailing zero: with the gold answer \<^verbatim>\<open>100\<close> and the predicted answer
  \<^verbatim>\<open>1\<close> the code returns true, and the comparison that the specification describes
  returns false.
\<close>

theorem metric_strips_trailing_zeros:
  "metric unicode_lower ''100'' ''1'' \<and> \<not> spec_metric unicode_lower ''100'' ''1''"
proof
  show "metric unicode_lower ''100'' ''1''"
    by (simp add: metric_unfold)
  show "\<not> spec_metric unicode_lower ''100'' ''1''"
    by (simp add: spec_metric_unfold)
qed




subsection \<open>Timeout-wrapped calls and the agent loop\<close>

text \<open>The four ways a wrapped call can go, and the wrapped finish tool, which always
  returns a dictionary and leaves the world as it is.\<close>

lemma wrap_returns:
  "call fn kw w = Finishes t (Return v) w' \<Longrightarrow> t \<le> 10 \<Longrightarrow>
   wrap_function_with_timeout fn kw w = Inr (\<lparr>return_value = v, errors = None\<rparr>, w')"
  by (simp add: wrap_function_with_timeout_def func_set_timeout_def wrapper_def)

lemma wrap_raises:
  "call fn kw w = Finishes t (Raise e) w' \<Longrightarrow> t \<le> 10 \<Longrightarrow>
   wrap_function_with_timeout fn kw w =
     Inr (\<lparr>return_value = PyNone, errors = Some e\<rparr>, w')"
  by (simp add: wrap_function_with_timeout_def func_set_timeout_def wrapper_def)

lemma wrap_late:
  "call fn kw w = Finishes t out w' \<Longrightarrow> 10 < t \<Longrightarrow>
   wrap_function_with_timeout fn kw w = Inl FunctionTimedOut"
  by (cases out) (simp_all add: wrap_function_with_timeout_def func_set_timeout_def wrapper_def)

lemma wrap_hangs:
  "call fn kw w = Hangs \<Longrightarrow> wrap_function_with_timeout fn kw w = Inl FunctionTimedOut"
  by (simp add: wrap_function_with_timeout_def func_set_timeout_def wrapper_def)

lemma finish_call_cases:
  "(\<exists>e. finish_call kw w = Finishes 0 (Raise e) w) \<or>
   (\<exists>v. finish_call kw w = Finishes 0 (Return v) w)"
  by (auto simp: finish_call_def split: list.splits option.splits)

lemma finish_call_answer: "finish_call [(''answer'', v)] w = Finishes 0 (Return v) w"
  by (simp add: finish_call_def)

lemma wrap_finish:
  "\<exists>out. wrap_function_with_timeout finish kw w = Inr (out, w)"
  using finish_call_cases [of kw w]
  by (auto simp: finish_def wrap_returns wrap_raises)

lemma wrap_finish_answer:
  "wrap_function_with_timeout finish [(''answer'', v)] w =
     Inr (\<lparr>return_value = v, errors = None\<rparr>, w)"
  by (rule wrap_returns [where t = 0]) (simp_all add: finish_def finish_call_answer)

text \<open>A pass through the loop body that does not raise appends one step. The loop
  starts at most as many iterations as \<^verbatim>\<open>range\<close> gives, and the trajectory grows by
  one step for each.\<close>

lemma loop_body_length:
  "loop_body react q fns tools traj w = Break (out, traj', w') \<or>
   loop_body react q fns tools traj w = Continue (out, traj', w') \<Longrightarrow>
   length traj' = Suc (length traj)"
  by (auto simp: loop_body_def Let_def split: option.splits sum.splits if_splits)

lemma forward_loop_bound:
  "forward_loop react q fns tools n traj out w = (k, r) \<Longrightarrow>
   k \<le> n \<and> (\<forall>out' traj' w'. r = Inr (out', traj', w') \<longrightarrow> length traj' = length traj + k)"
proof (induction n arbitrary: traj out w k r)
  case 0
  then show ?case by auto
next
  case (Suc n)
  show ?case
  proof (cases "loop_body react q fns tools traj w")
    case (Raised e)
    with Suc.prems show ?thesis by auto
  next
    case (Break x)
    obtain o1 t1 w1 where x: "x = (o1, t1, w1)" by (cases x)
    with Break Suc.prems loop_body_length [of react q fns tools traj w o1 t1 w1]
    show ?thesis by auto
  next
    case (Continue x)
    obtain o1 t1 w1 where x: "x = (o1, t1, w1)" by (cases x)
    obtain k1 r1 where rec: "forward_loop react q fns tools n t1 (Some o1) w1 = (k1, r1)"
      by (cases "forward_loop react q fns tools n t1 (Some o1) w1")
    from Suc.prems Continue x rec have kr: "k = Suc k1" "r = r1" by auto
    from Suc.IH [OF rec] have "k1 \<le> n"
      and len: "\<forall>out' traj' w'. r1 = Inr (out', traj', w') \<longrightarrow> length traj' = length t1 + k1"
      by auto
    moreover have "length t1 = Suc (length traj)"
      using loop_body_length [of react q fns tools traj w o1 t1 w1] Continue x by simp
    ultimately show ?thesis using kr by auto
  qed
qed

text \<open>The run enters iteration \<open>i\<close> with a trajectory of \<open>i\<close> steps, and what the
  loop does from there is what the whole loop does.\<close>

lemma loop_head_length:
  "loop_head react q fns tools w0 i = Some (traj, out, w) \<Longrightarrow> length traj = i"
proof (induction i arbitrary: traj out w)
  case 0
  then show ?case by simp
next
  case (Suc i)
  then show ?case
    by (auto split: option.splits flow.splits dest: loop_body_length [OF disjI2])
qed

lemma forward_loop_from_head:
  "loop_head react q fns tools w0 i = Some (traj, out, w) \<Longrightarrow> i \<le> N \<Longrightarrow>
   forward_loop react q fns tools N [] None w0 =
     (case forward_loop react q fns tools (N - i) traj out w of (k, r) \<Rightarrow> (i + k, r))"
proof (induction i arbitrary: traj out w)
  case 0
  then show ?case by (simp split: prod.splits)
next
  case (Suc i)
  from Suc.prems(1) obtain traj0 out0 wa o1 where
    head: "loop_head react q fns tools w0 i = Some (traj0, out0, wa)" and
    body: "loop_body react q fns tools traj0 wa = Continue (o1, traj, w)" and
    out: "out = Some o1"
    by (auto split: option.splits flow.splits)
  from Suc.prems(2) have N: "N - i = Suc (N - Suc i)" "i \<le> N" by simp_all
  have "forward_loop react q fns tools N [] None w0 =
        (case forward_loop react q fns tools (N - i) traj0 out0 wa of (k, r) \<Rightarrow> (i + k, r))"
    using Suc.IH [OF head N(2)] .
  also have "\<dots> = (case forward_loop react q fns tools (N - Suc i) traj out w of
                      (k, r) \<Rightarrow> (Suc i + k, r))"
    by (simp add: N(1) body out split: prod.splits)
  finally show ?case .
qed

lemma forward_loop_at_head:
  assumes "loop_head react q fns tools w0 i = Some (traj, out, w)" and "i < N"
  shows "forward_loop react q fns tools N [] None w0 =
     (case loop_body react q fns tools traj w of
        Raised e \<Rightarrow> (Suc i, Inl e)
      | Break (out', traj', w') \<Rightarrow> (Suc i, Inr (Some out', traj', w'))
      | Continue (out', traj', w') \<Rightarrow>
          (case forward_loop react q fns tools (N - Suc i) traj' (Some out') w' of
             (k, r) \<Rightarrow> (Suc i + k, r)))"
proof -
  from assms(2) have N: "N - i = Suc (N - Suc i)" "i \<le> N" by simp_all
  show ?thesis
    unfolding forward_loop_from_head [OF assms(1) N(2)] N(1)
    by (simp split: flow.splits prod.splits)
qed

text \<open>The three ways in which iteration \<open>i\<close> can be the last one of a run.\<close>

lemma agent_raised:
  assumes "loop_head react q fns (tools_of fns) w0 i = Some (traj, out, w)" and "int i < ms"
    and "loop_body react q fns (tools_of fns) traj w = Raised e"
  shows "Agent_forward ms react q fns w0 = Inl e"
    and "forward_iterations ms react q fns w0 = Suc i"
proof -
  from assms(2) have "i < nat ms" by simp
  from forward_loop_at_head [OF assms(1) this] assms(3)
  have "forward_loop react q fns (tools_of fns) (nat ms) [] None w0 = (Suc i, Inl e)"
    by simp
  then show "Agent_forward ms react q fns w0 = Inl e"
    and "forward_iterations ms react q fns w0 = Suc i"
    by (simp_all add: Agent_forward_def forward_iterations_def)
qed

lemma agent_break:
  assumes "loop_head react q fns (tools_of fns) w0 i = Some (traj, out, w)" and "int i < ms"
    and "loop_body react q fns (tools_of fns) traj w = Break (out', traj', w')"
  shows "Agent_forward ms react q fns w0 =
           Inr \<lparr>answer = return_value out', trajectory = traj'\<rparr>"
    and "forward_iterations ms react q fns w0 = Suc i"
proof -
  from assms(2) have "i < nat ms" by simp
  from forward_loop_at_head [OF assms(1) this] assms(3)
  have "forward_loop react q fns (tools_of fns) (nat ms) [] None w0 =
          (Suc i, Inr (Some out', traj', w'))"
    by simp
  then show "Agent_forward ms react q fns w0 =
           Inr \<lparr>answer = return_value out', trajectory = traj'\<rparr>"
    and "forward_iterations ms react q fns w0 = Suc i"
    by (simp_all add: Agent_forward_def forward_iterations_def make_prediction_def)
qed

lemma agent_exhausted:
  assumes "loop_head react q fns (tools_of fns) w0 i = Some (traj, out, w)"
    and "int (Suc i) = ms"
    and "loop_body react q fns (tools_of fns) traj w = Continue (out', traj', w')"
  shows "Agent_forward ms react q fns w0 =
           Inr \<lparr>answer = return_value out', trajectory = traj'\<rparr>"
    and "forward_iterations ms react q fns w0 = Suc i"
proof -
  from assms(2) have ms: "nat ms = Suc i" by auto
  then have "i < nat ms" by simp
  from forward_loop_at_head [OF assms(1) this] assms(3)
  have "forward_loop react q fns (tools_of fns) (nat ms) [] None w0 =
          (Suc i, Inr (Some out', traj', w'))"
    by (simp add: ms)
  then show "Agent_forward ms react q fns w0 =
           Inr \<lparr>answer = return_value out', trajectory = traj'\<rparr>"
    and "forward_iterations ms react q fns w0 = Suc i"
    by (simp_all add: Agent_forward_def forward_iterations_def make_prediction_def)
qed

lemma loop_head_Suc:
  assumes "loop_head react q fns tools w0 i = Some (traj, out, w)"
    and "loop_body react q fns tools traj w = Continue (out', traj', w')"
  shows "loop_head react q fns tools w0 (Suc i) = Some (traj', Some out', w')"
  using assms by simp

lemma loop_body_unknown:
  assumes "map_of fns (normalize_fn_name (next_selected_fn (react q traj tools))) = None"
  shows "loop_body react q fns tools traj w =
         Raised (KeyError (normalize_fn_name (next_selected_fn (react q traj tools))))"
  using assms by (simp add: loop_body_def Let_def)

lemma loop_body_called:
  assumes "map_of fns (normalize_fn_name (next_selected_fn (react q traj tools))) = Some fn"
    and "wrap_function_with_timeout fn (args (react q traj tools)) w = Inr (out', w')"
  shows "loop_body react q fns tools traj w =
         (if normalize_fn_name (next_selected_fn (react q traj tools)) = ''finish''
          then Break (out', traj @ [make_step (react q traj tools) ''finish'' out'], w')
          else Continue (out', traj @ [make_step (react q traj tools)
                   (normalize_fn_name (next_selected_fn (react q traj tools))) out'], w'))"
  using assms by (simp add: loop_body_def Let_def)

lemmas run_unfold =
  Agent_forward_def forward_iterations_def make_prediction_def tools_of_def loop_body_def
  normalize_fn_name_def py_strip_def py_lstrip_def py_rstrip_def make_step_def
  wrap_function_with_timeout_def func_set_timeout_def wrapper_def fn_metadata_def
  react_always_def react_script_def select_def finish_def finish_call_def
  failing_tool_def slow_tool_def add_tool_def add_call_def count_call_def Let_def
  eval_nat_numeral

text \<open>
  Claim C3. For every reasoning component, whatever it answers, a run of \<^verbatim>\<open>forward\<close>
  starts at most \<^verbatim>\<open>max_steps\<close> iterations of the loop (none when \<^verbatim>\<open>max_steps\<close> is
  negative), also when \<^verbatim>\<open>finish\<close> is never selected, and a trajectory that is returned
  has at most \<^verbatim>\<open>max_steps\<close> steps. The loop is the total function \<open>forward_loop\<close>,
  whose recursion follows \<^verbatim>\<open>range(max_steps)\<close>: every run ends, with an exception or
  with a prediction.
\<close>

theorem forward_bounded_by_max_steps:
  "int (forward_iterations ms react q fns w) \<le> max 0 ms \<and>
   (\<forall>p. Agent_forward ms react q fns w = Inr p \<longrightarrow> int (length (trajectory p)) \<le> ms)"
proof (intro conjI allI impI)
  obtain k r where run: "forward_loop react q fns (tools_of fns) (nat ms) [] None w = (k, r)"
    by (cases "forward_loop react q fns (tools_of fns) (nat ms) [] None w")
  from forward_loop_bound [OF run] have k: "k \<le> nat ms"
    and len: "\<And>out' traj' w'. r = Inr (out', traj', w') \<Longrightarrow> length traj' = k"
    by auto
  from k run show "int (forward_iterations ms react q fns w) \<le> max 0 ms"
    by (simp add: forward_iterations_def)
  fix p
  assume ret: "Agent_forward ms react q fns w = Inr p"
  with run obtain out' traj' w' where r: "r = Inr (Some out', traj', w')"
    and p: "trajectory p = traj'"
    by (auto simp: Agent_forward_def make_prediction_def split: sum.splits option.splits)
  from len [OF r] p have "length (trajectory p) = k" by simp
  moreover from run r have "k \<noteq> 0"
    by (cases "nat ms") (auto split: flow.splits prod.splits)
  ultimately show "int (length (trajectory p)) \<le> ms"
    using k by linarith
qed

theorem forward_bounded_by_max_steps_witness:
  "Agent_forward 2 (react_always (select ''fail'' [])) ''q''
     [(''fail'', failing_tool), (''finish'', finish)] \<lparr>objects = 0, calls = 0\<rparr> =
     Inr \<lparr>answer = PyNone,
          trajectory =
            [\<lparr>t_reasoning = ''next'', t_selected_fn = ''fail'', t_args = [],
              t_return_value = PyNone, t_errors = Some ''boom''\<rparr>,
             \<lparr>t_reasoning = ''next'', t_selected_fn = ''fail'', t_args = [],
              t_return_value = PyNone, t_errors = Some ''boom''\<rparr>]\<rparr> \<and>
   int (length (trajectory
     \<lparr>answer = PyNone,
          trajectory =
            [\<lparr>t_reasoning = ''next'', t_selected_fn = ''fail'', t_args = [],
              t_return_value = PyNone, t_errors = Some ''boom''\<rparr>,
             \<lparr>t_reasoning = ''next'', t_selected_fn = ''fail'', t_args = [],
              t_return_value = PyNone, t_errors = Some ''boom''\<rparr>]\<rparr>)) \<le> 2 \<and>
   int (forward_iterations 2 (react_always (select ''fail'' [])) ''q''
     [(''fail'', failing_tool), (''finish'', finish)] \<lparr>objects = 0, calls = 0\<rparr>) \<le> max 0 2"
proof -
  have run: "Agent_forward 2 (react_always (select ''fail'' [])) ''q''
     [(''fail'', failing_tool), (''finish'', finish)] \<lparr>objects = 0, calls = 0\<rparr> =
     Inr \<lparr>answer = PyNone,
          trajectory =
            [\<lparr>t_reasoning = ''next'', t_selected_fn = ''fail'', t_args = [],
              t_return_value = PyNone, t_errors = Some ''boom''\<rparr>,
             \<lparr>t_reasoning = ''next'', t_selected_fn = ''fail'', t_args = [],
              t_return_value = PyNone, t_errors = Some ''boom''\<rparr>]\<rparr>"
    by (simp add: run_unfold)
  from forward_bounded_by_max_steps [of 2 "react_always (select ''fail'' [])" "''q''"
      "[(''fail'', failing_tool), (''finish'', finish)]" "\<lparr>objects = 0, calls = 0\<rparr>"] run
  show ?thesis by blast
qed

text \<open>
  Claim C1, as amended. The claim says that the wrapped call never raises and that a call
  which exceeds the timeout returns a result with \<^verbatim>\<open>return_value\<close> null and \<^verbatim>\<open>errors\<close>
  set. The \<^verbatim>\<open>try\<close> block is inside the decorated function, so it does not see the
  timeout. What holds: when \<^verbatim>\<open>fn\<close> returns within 10 time units the call returns that
  value with \<^verbatim>\<open>errors\<close> null; when \<^verbatim>\<open>fn\<close> raises an \<^verbatim>\<open>Exception\<close> within 10 time
  units the call returns \<^verbatim>\<open>return_value\<close> null and the message in \<^verbatim>\<open>errors\<close>; in both
  cases the world is as the one call of \<^verbatim>\<open>fn\<close> left it. When \<^verbatim>\<open>fn\<close> takes longer
  than 10 time units or never finishes, the call raises \<^verbatim>\<open>FunctionTimedOut\<close> to its
  caller.
\<close>

theorem wrap_function_with_timeout_result:
  "(\<forall>t v w'. call fn kw w = Finishes t (Return v) w' \<and> t \<le> 10 \<longrightarrow>
      wrap_function_with_timeout fn kw w =
        Inr (\<lparr>return_value = v, errors = None\<rparr>, w')) \<and>
   (\<forall>t e w'. call fn kw w = Finishes t (Raise e) w' \<and> t \<le> 10 \<longrightarrow>
      wrap_function_with_timeout fn kw w =
        Inr (\<lparr>return_value = PyNone, errors = Some e\<rparr>, w')) \<and>
   (\<forall>t out w'. call fn kw w = Hangs \<or> (call fn kw w = Finishes t out w' \<and> 10 < t) \<longrightarrow>
      wrap_function_with_timeout fn kw w = Inl FunctionTimedOut)"
proof (intro conjI allI impI)
  fix t v w'
  assume "call fn kw w = Finishes t (Return v) w' \<and> t \<le> 10"
  then show "wrap_function_with_timeout fn kw w =
        Inr (\<lparr>return_value = v, errors = None\<rparr>, w')"
    by (simp add: wrap_returns)
next
  fix t e w'
  assume "call fn kw w = Finishes t (Raise e) w' \<and> t \<le> 10"
  then show "wrap_function_with_timeout fn kw w =
        Inr (\<lparr>return_value = PyNone, errors = Some e\<rparr>, w')"
    by (simp add: wrap_raises)
next
  fix t out w'
  assume "call fn kw w = Hangs \<or> (call fn kw w = Finishes t out w' \<and> 10 < t)"
  then show "wrap_function_with_timeout fn kw w = Inl FunctionTimedOut"
    using wrap_hangs [of fn kw w] wrap_late [of fn kw w t out w'] by auto
qed

theorem wrap_function_with_timeout_result_witness:
  "wrap_function_with_timeout (add_tool 12) [(''a'', PyInt 2), (''b'', PyInt 3)]
       \<lparr>objects = 0, calls = 0\<rparr> =
     Inr (\<lparr>return_value = PyInt 5, errors = None\<rparr>, \<lparr>objects = 0, calls = 1\<rparr>) \<and>
   wrap_function_with_timeout failing_tool [] \<lparr>objects = 0, calls = 0\<rparr> =
     Inr (\<lparr>return_value = PyNone, errors = Some ''boom''\<rparr>, \<lparr>objects = 0, calls = 1\<rparr>) \<and>
   wrap_function_with_timeout slow_tool [] \<lparr>objects = 0, calls = 0\<rparr> = Inl FunctionTimedOut"
proof -
  let ?w = "\<lparr>objects = 0, calls = 0\<rparr>"
  let ?w1 = "\<lparr>objects = 0, calls = 1\<rparr>"
  have a: "call (add_tool 12) [(''a'', PyInt 2), (''b'', PyInt 3)] ?w =
      Finishes 1 (Return (PyInt 5)) ?w1 \<and> (1::nat) \<le> 10"
    by (simp add: add_tool_def add_call_def count_call_def)
  have b: "call failing_tool [] ?w = Finishes 1 (Raise ''boom'') ?w1 \<and> (1::nat) \<le> 10"
    by (simp add: failing_tool_def count_call_def)
  have c: "call slow_tool [] ?w = Finishes 11 (Return PyNone) ?w1 \<and> (10::nat) < 11"
    by (simp add: slow_tool_def count_call_def)
  from wrap_function_with_timeout_result
    [of "add_tool 12" "[(''a'', PyInt 2), (''b'', PyInt 3)]" ?w] a
  have 1: "wrap_function_with_timeout (add_tool 12) [(''a'', PyInt 2), (''b'', PyInt 3)] ?w =
     Inr (\<lparr>return_value = PyInt 5, errors = None\<rparr>, ?w1)" by blast
  from wrap_function_with_timeout_result [of failing_tool "[]" ?w] b
  have 2: "wrap_function_with_timeout failing_tool [] ?w =
     Inr (\<lparr>return_value = PyNone, errors = Some ''boom''\<rparr>, ?w1)" by blast
  from wrap_function_with_timeout_result [of slow_tool "[]" ?w] c
  have 3: "wrap_function_with_timeout slow_tool [] ?w = Inl FunctionTimedOut" by blast
  from 1 2 3 show ?thesis by simp
qed

theorem wrap_function_with_timeout_counterexample:
  "call slow_tool [] \<lparr>objects = 0, calls = 0\<rparr> =
     Finishes 11 (Return PyNone) \<lparr>objects = 0, calls = 1\<rparr> \<and>
   wrap_function_with_timeout slow_tool [] \<lparr>objects = 0, calls = 0\<rparr> = Inl FunctionTimedOut"
  by (simp add: slow_tool_def wrap_function_with_timeout_def func_set_timeout_def wrapper_def
      count_call_def)

text \<open>
  Claim C4, as amended. Let a run of \<^verbatim>\<open>forward\<close> enter iteration \<open>i\<close> (with \<open>i\<close> below
  \<^verbatim>\<open>max_steps\<close>) and let the reasoning component select, after normalisation, the name
  \<^verbatim>\<open>finish\<close>, which \<^verbatim>\<open>functions\<close> maps to the finish tool of cell 3. Then the step
  is appended to the trajectory and the run returns at once: the trajectory of the
  prediction is the trajectory so far with that one step added, and iteration \<open>i\<close> is
  the last that was started. When the call passes exactly the keyword argument
  \<^verbatim>\<open>answer\<close>, the answer of the prediction is the value that was passed (in particular
  a string). The claim as stated promises that answer for every call of \<^verbatim>\<open>finish\<close>;
  a call with any other keyword is a \<^verbatim>\<open>TypeError\<close>, which the wrapper turns into a
  null \<^verbatim>\<open>return_value\<close>.
\<close>

theorem finish_ends_the_loop:
  assumes "loop_head react q fns (tools_of fns) w0 i = Some (traj, out, w)"
    and "int i < ms"
    and "p = react q traj (tools_of fns)"
    and "normalize_fn_name (next_selected_fn p) = ''finish''"
    and "map_of fns ''finish'' = Some finish"
  shows "(\<exists>out'. wrap_function_with_timeout finish (args p) w = Inr (out', w) \<and>
            Agent_forward ms react q fns w0 =
              Inr \<lparr>answer = return_value out',
                   trajectory = traj @ [make_step p ''finish'' out']\<rparr>) \<and>
         forward_iterations ms react q fns w0 = Suc i \<and>
         (\<forall>v. args p = [(''answer'', v)] \<longrightarrow>
            Agent_forward ms react q fns w0 =
              Inr \<lparr>answer = v,
                   trajectory = traj @ [make_step p ''finish''
                                          \<lparr>return_value = v, errors = None\<rparr>]\<rparr>)"
proof -
  obtain out' where wr: "wrap_function_with_timeout finish (args p) w = Inr (out', w)"
    using wrap_finish [of "args p" w] by blast
  have body: "loop_body react q fns (tools_of fns) traj w =
              Break (out', traj @ [make_step p ''finish'' out'], w)"
    using loop_body_called [of fns react q traj "tools_of fns" finish w out' w] assms(3-5) wr
    by simp
  note run = agent_break [OF assms(1,2) body]
  have "\<And>v. args p = [(''answer'', v)] \<Longrightarrow> out' = \<lparr>return_value = v, errors = None\<rparr>"
    using wr by (simp add: wrap_finish_answer)
  with run wr show ?thesis by auto
qed

theorem finish_ends_the_loop_witness:
  "loop_head (react_script [select ''add'' [(''a'', PyInt 2), (''b'', PyInt 3)]]
       (select ([CHR 0x22] @ ''finish'' @ [CHR 0x22]) [(''answer'', PyStr ''5'')])) ''q''
     [(''add'', add_tool 12), (''finish'', finish)]
     (tools_of [(''add'', add_tool 12), (''finish'', finish)]) \<lparr>objects = 0, calls = 0\<rparr> 1 =
     Some ([\<lparr>t_reasoning = ''next'', t_selected_fn = ''add'',
             t_args = [(''a'', PyInt 2), (''b'', PyInt 3)],
             t_return_value = PyInt 5, t_errors = None\<rparr>],
           Some \<lparr>return_value = PyInt 5, errors = None\<rparr>, \<lparr>objects = 0, calls = 1\<rparr>) \<and>
   Agent_forward 5
     (react_script [select ''add'' [(''a'', PyInt 2), (''b'', PyInt 3)]]
       (select ([CHR 0x22] @ ''finish'' @ [CHR 0x22]) [(''answer'', PyStr ''5'')])) ''q''
     [(''add'', add_tool 12), (''finish'', finish)] \<lparr>objects = 0, calls = 0\<rparr> =
     Inr \<lparr>answer = PyStr ''5'',
          trajectory =
            [\<lparr>t_reasoning = ''next'', t_selected_fn = ''add'',
              t_args = [(''a'', PyInt 2), (''b'', PyInt 3)],
              t_return_value = PyInt 5, t_errors = None\<rparr>,
             \<lparr>t_reasoning = ''next'', t_selected_fn = ''finish'',
              t_args = [(''answer'', PyStr ''5'')],
              t_return_value = PyStr ''5'', t_errors = None\<rparr>]\<rparr> \<and>
   forward_iterations 5
     (react_script [select ''add'' [(''a'', PyInt 2), (''b'', PyInt 3)]]
       (select ([CHR 0x22] @ ''finish'' @ [CHR 0x22]) [(''answer'', PyStr ''5'')])) ''q''
     [(''add'', add_tool 12), (''finish'', finish)] \<lparr>objects = 0, calls = 0\<rparr> = 2"
proof -
  let ?R = "react_script [select ''add'' [(''a'', PyInt 2), (''b'', PyInt 3)]]
       (select ([CHR 0x22] @ ''finish'' @ [CHR 0x22]) [(''answer'', PyStr ''5'')])"
  let ?F = "[(''add'', add_tool 12), (''finish'', finish)]"
  let ?T = "[\<lparr>t_reasoning = ''next'', t_selected_fn = ''add'',
             t_args = [(''a'', PyInt 2), (''b'', PyInt 3)],
             t_return_value = PyInt 5, t_errors = None\<rparr>]"
  let ?p = "select ([CHR 0x22] @ ''finish'' @ [CHR 0x22]) [(''answer'', PyStr ''5'')]"
  let ?w0 = "\<lparr>objects = 0, calls = 0\<rparr>"
  have head: "loop_head ?R ''q'' ?F (tools_of ?F) ?w0 1 =
      Some (?T, Some \<lparr>return_value = PyInt 5, errors = None\<rparr>, \<lparr>objects = 0, calls = 1\<rparr>)"
    by (simp add: run_unfold)
  have p: "?p = ?R ''q'' ?T (tools_of ?F)"
    by (simp add: react_script_def)
  have name: "normalize_fn_name (next_selected_fn ?p) = ''finish''"
    by (simp add: run_unfold)
  have fin: "map_of ?F ''finish'' = Some finish"
    by simp
  have a: "args ?p = [(''answer'', PyStr ''5'')]"
    by (simp add: select_def)
  have st: "make_step ?p ''finish'' \<lparr>return_value = PyStr ''5'', errors = None\<rparr> =
      \<lparr>t_reasoning = ''next'', t_selected_fn = ''finish'',
              t_args = [(''answer'', PyStr ''5'')],
              t_return_value = PyStr ''5'', t_errors = None\<rparr>"
    by (simp add: make_step_def select_def)
  from finish_ends_the_loop [OF head _ p name fin, of 5] a st
  have "Agent_forward 5 ?R ''q'' ?F ?w0 = Inr \<lparr>answer = PyStr ''5'', trajectory = ?T @
      [\<lparr>t_reasoning = ''next'', t_selected_fn = ''finish'',
              t_args = [(''answer'', PyStr ''5'')],
              t_return_value = PyStr ''5'', t_errors = None\<rparr>]\<rparr>"
    and "forward_iterations 5 ?R ''q'' ?F ?w0 = Suc 1"
    by simp_all
  with head show ?thesis by simp
qed

theorem finish_answer_counterexample:
  "map_of [(''answer'', PyStr ''42''), (''confidence'', PyInt 1)] ''answer'' =
     Some (PyStr ''42'') \<and>
   Agent_forward 5
     (react_always (select ''finish'' [(''answer'', PyStr ''42''), (''confidence'', PyInt 1)]))
     ''q'' [(''finish'', finish)] \<lparr>objects = 0, calls = 0\<rparr> =
     Inr \<lparr>answer = PyNone,
          trajectory =
            [\<lparr>t_reasoning = ''next'', t_selected_fn = ''finish'',
              t_args = [(''answer'', PyStr ''42''), (''confidence'', PyInt 1)],
              t_return_value = PyNone,
              t_errors = Some (''finish() got an unexpected keyword argument '' @
                               [CHR 0x27] @ ''confidence'' @ [CHR 0x27])\<rparr>]\<rparr>"
  by (simp add: run_unfold)

text \<open>
  Claim C5, as amended. Let a run of \<^verbatim>\<open>forward\<close> enter iteration \<open>i\<close> in the state
  \<open>w\<close> of the world, and let the call of the selected tool in that state raise an
  \<^verbatim>\<open>Exception\<close> with message \<open>e\<close> within the timeout, leaving the world in the state
  \<open>w'\<close>. Then exactly one step is appended, with \<^verbatim>\<open>return_value\<close> null and
  \<^verbatim>\<open>errors\<close> equal to \<open>e\<close>, and the pass through the loop body ends in the state
  \<open>w'\<close>: the tool has been called once and not again. When the selected name is not
  \<^verbatim>\<open>finish\<close> the run goes on to the head of iteration \<open>i + 1\<close> with that trajectory
  and in that state; when the selected name is \<^verbatim>\<open>finish\<close>, or iteration \<open>i\<close> was the
  last one that \<^verbatim>\<open>max_steps\<close> allows, the run returns a prediction with a null answer.
  The claim as stated leaves out the first of these two exits: a failed call of
  \<^verbatim>\<open>finish\<close> ends the loop although steps remain.
\<close>

theorem tool_exception_is_recorded:
  assumes "loop_head react q fns (tools_of fns) w0 i = Some (traj, out, w)"
    and "int i < ms"
    and "p = react q traj (tools_of fns)"
    and "name = normalize_fn_name (next_selected_fn p)"
    and "map_of fns name = Some fn"
    and "call fn (args p) w = Finishes t (Raise e) w'"
    and "t \<le> 10"
    and "out' = \<lparr>return_value = PyNone, errors = Some e\<rparr>"
  shows "loop_body react q fns (tools_of fns) traj w =
           (if name = ''finish'' then Break (out', traj @ [make_step p name out'], w')
            else Continue (out', traj @ [make_step p name out'], w')) \<and>
         (name \<noteq> ''finish'' \<longrightarrow>
            loop_head react q fns (tools_of fns) w0 (Suc i) =
              Some (traj @ [make_step p name out'], Some out', w')) \<and>
         (name = ''finish'' \<or> int (Suc i) = ms \<longrightarrow>
            Agent_forward ms react q fns w0 =
              Inr \<lparr>answer = PyNone, trajectory = traj @ [make_step p name out']\<rparr>)"
proof -
  have wr: "wrap_function_with_timeout fn (args p) w = Inr (out', w')"
    using wrap_raises [OF assms(6,7)] assms(8) by simp
  have body: "loop_body react q fns (tools_of fns) traj w =
           (if name = ''finish'' then Break (out', traj @ [make_step p name out'], w')
            else Continue (out', traj @ [make_step p name out'], w'))"
    using loop_body_called [of fns react q traj "tools_of fns" fn w out' w'] assms(3-5) wr
    by simp
  have next_head: "loop_head react q fns (tools_of fns) w0 (Suc i) =
              Some (traj @ [make_step p name out'], Some out', w')" if "name \<noteq> ''finish''"
    using loop_head_Suc [OF assms(1)] body that by simp
  have ret: "Agent_forward ms react q fns w0 =
              Inr \<lparr>answer = PyNone, trajectory = traj @ [make_step p name out']\<rparr>"
    if "name = ''finish'' \<or> int (Suc i) = ms"
  proof (cases "name = ''finish''")
    case True
    with body agent_break(1) [OF assms(1,2)] assms(8) show ?thesis by simp
  next
    case False
    with that have "int (Suc i) = ms" by simp
    from agent_exhausted(1) [OF assms(1) this] body False assms(8) show ?thesis by simp
  qed
  from body next_head ret show ?thesis by blast
qed

theorem tool_exception_is_recorded_witness:
  "loop_head (react_always (select ''fail'' [])) ''q''
       [(''fail'', failing_tool), (''finish'', finish)]
       (tools_of [(''fail'', failing_tool), (''finish'', finish)])
       \<lparr>objects = 0, calls = 0\<rparr> 1 =
     Some ([\<lparr>t_reasoning = ''next'', t_selected_fn = ''fail'', t_args = [],
             t_return_value = PyNone, t_errors = Some ''boom''\<rparr>],
           Some \<lparr>return_value = PyNone, errors = Some ''boom''\<rparr>,
           \<lparr>objects = 0, calls = 1\<rparr>) \<and>
   call failing_tool [] \<lparr>objects = 0, calls = 1\<rparr> =
     Finishes 1 (Raise ''boom'') \<lparr>objects = 0, calls = 2\<rparr> \<and>
   loop_head (react_always (select ''fail'' [])) ''q''
       [(''fail'', failing_tool), (''finish'', finish)]
       (tools_of [(''fail'', failing_tool), (''finish'', finish)])
       \<lparr>objects = 0, calls = 0\<rparr> 2 =
     Some ([\<lparr>t_reasoning = ''next'', t_selected_fn = ''fail'', t_args = [],
             t_return_value = PyNone, t_errors = Some ''boom''\<rparr>,
            \<lparr>t_reasoning = ''next'', t_selected_fn = ''fail'', t_args = [],
             t_return_value = PyNone, t_errors = Some ''boom''\<rparr>],
           Some \<lparr>return_value = PyNone, errors = Some ''boom''\<rparr>,
           \<lparr>objects = 0, calls = 2\<rparr>) \<and>
   Agent_forward 2 (react_always (select ''fail'' [])) ''q''
       [(''fail'', failing_tool), (''finish'', finish)] \<lparr>objects = 0, calls = 0\<rparr> =
     Inr \<lparr>answer = PyNone,
          trajectory =
            [\<lparr>t_reasoning = ''next'', t_selected_fn = ''fail'', t_args = [],
              t_return_value = PyNone, t_errors = Some ''boom''\<rparr>,
             \<lparr>t_reasoning = ''next'', t_selected_fn = ''fail'', t_args = [],
              t_return_value = PyNone, t_errors = Some ''boom''\<rparr>]\<rparr>"
proof -
  let ?R = "react_always (select ''fail'' [])"
  let ?F = "[(''fail'', failing_tool), (''finish'', finish)]"
  let ?s = "\<lparr>t_reasoning = ''next'', t_selected_fn = ''fail'', t_args = [],
             t_return_value = PyNone, t_errors = Some ''boom''\<rparr>"
  let ?o = "\<lparr>return_value = PyNone, errors = Some ''boom''\<rparr>"
  let ?p = "select ''fail'' []"
  let ?w0 = "\<lparr>objects = 0, calls = 0\<rparr>"
  let ?w1 = "\<lparr>objects = 0, calls = 1\<rparr>"
  let ?w2 = "\<lparr>objects = 0, calls = 2\<rparr>"
  have head: "loop_head ?R ''q'' ?F (tools_of ?F) ?w0 1 = Some ([?s], Some ?o, ?w1)"
    by (simp add: run_unfold)
  have p: "?p = ?R ''q'' [?s] (tools_of ?F)"
    by (simp add: react_always_def)
  have name: "''fail'' = normalize_fn_name (next_selected_fn ?p)"
    by (simp add: run_unfold)
  have fn: "map_of ?F ''fail'' = Some failing_tool"
    by simp
  have c: "call failing_tool (args ?p) ?w1 = Finishes 1 (Raise ''boom'') ?w2"
    by (simp add: failing_tool_def count_call_def)
  have st: "make_step ?p ''fail'' ?o = ?s"
    by (simp add: make_step_def select_def)
  have c0: "call failing_tool [] ?w1 = Finishes 1 (Raise ''boom'') ?w2"
    by (simp add: failing_tool_def count_call_def)
  from tool_exception_is_recorded [OF head _ p name fn c _ refl, of 2] st
  have "loop_head ?R ''q'' ?F (tools_of ?F) ?w0 (Suc 1) = Some ([?s] @ [?s], Some ?o, ?w2)"
    and "Agent_forward 2 ?R ''q'' ?F ?w0 = Inr \<lparr>answer = PyNone, trajectory = [?s] @ [?s]\<rparr>"
    by simp_all
  then have "loop_head ?R ''q'' ?F (tools_of ?F) ?w0 2 = Some ([?s, ?s], Some ?o, ?w2)"
    and "Agent_forward 2 ?R ''q'' ?F ?w0 = Inr \<lparr>answer = PyNone, trajectory = [?s, ?s]\<rparr>"
    by (simp_all del: loop_head.simps add: numeral_2_eq_2)
  with head c0 show ?thesis by blast
qed

theorem tool_exception_counterexample:
  "call finish [(''final_answer'', PyStr ''42'')] \<lparr>objects = 0, calls = 0\<rparr> =
     Finishes 0 (Raise (''finish() got an unexpected keyword argument '' @
                        [CHR 0x27] @ ''final_answer'' @ [CHR 0x27]))
       \<lparr>objects = 0, calls = 0\<rparr> \<and>
   forward_iterations 5 (react_always (select ''finish'' [(''final_answer'', PyStr ''42'')]))
     ''q'' [(''finish'', finish)] \<lparr>objects = 0, calls = 0\<rparr> = 1 \<and>
   Agent_forward 5 (react_always (select ''finish'' [(''final_answer'', PyStr ''42'')]))
     ''q'' [(''finish'', finish)] \<lparr>objects = 0, calls = 0\<rparr> =
     Inr \<lparr>answer = PyNone,
          trajectory =
            [\<lparr>t_reasoning = ''next'', t_selected_fn = ''finish'',
              t_args = [(''final_answer'', PyStr ''42'')],
              t_return_value = PyNone,
              t_errors = Some (''finish() got an unexpected keyword argument '' @
                               [CHR 0x27] @ ''final_answer'' @ [CHR 0x27])\<rparr>]\<rparr>"
  by (simp add: run_unfold)

text \<open>
  Claim C9. Let a run of \<^verbatim>\<open>forward\<close> enter iteration \<open>i\<close> (with \<open>i\<close> below
  \<^verbatim>\<open>max_steps\<close>) and let the reasoning component answer with a name that, once the
  quotes around it are stripped, is not a key of \<^verbatim>\<open>functions\<close>. Then \<^verbatim>\<open>forward\<close>
  raises \<^verbatim>\<open>KeyError\<close> for that name: no step is recorded for the failure and no
  prediction is returned.
\<close>

theorem unknown_tool_raises_KeyError:
  assumes "loop_head react q fns (tools_of fns) w0 i = Some (traj, out, w)"
    and "int i < ms"
    and "name = normalize_fn_name (next_selected_fn (react q traj (tools_of fns)))"
    and "map_of fns name = None"
  shows "Agent_forward ms react q fns w0 = Inl (KeyError name)"
  using agent_raised(1) [OF assms(1,2)]
    loop_body_unknown [of fns react q traj "tools_of fns" w] assms(3,4) by simp

theorem unknown_tool_raises_KeyError_witness:
  "loop_head (react_always (select ([CHR 0x27] @ ''search'' @ [CHR 0x27]) [])) ''q''
       [(''add'', add_tool 12), (''finish'', finish)]
       (tools_of [(''add'', add_tool 12), (''finish'', finish)])
       \<lparr>objects = 0, calls = 0\<rparr> 0 = Some ([], None, \<lparr>objects = 0, calls = 0\<rparr>) \<and>
   map_of [(''add'', add_tool 12), (''finish'', finish)] ''search'' = None \<and>
   Agent_forward 5 (react_always (select ([CHR 0x27] @ ''search'' @ [CHR 0x27]) [])) ''q''
       [(''add'', add_tool 12), (''finish'', finish)] \<lparr>objects = 0, calls = 0\<rparr> =
     Inl (KeyError ''search'')"
proof -
  let ?R = "react_always (select ([CHR 0x27] @ ''search'' @ [CHR 0x27]) [])"
  let ?F = "[(''add'', add_tool 12), (''finish'', finish)]"
  let ?w0 = "\<lparr>objects = 0, calls = 0\<rparr>"
  have head: "loop_head ?R ''q'' ?F (tools_of ?F) ?w0 0 = Some ([], None, ?w0)"
    by simp
  have name: "''search'' = normalize_fn_name (next_selected_fn (?R ''q'' [] (tools_of ?F)))"
    by (simp add: run_unfold)
  have unknown: "map_of ?F ''search'' = None"
    by simp
  from unknown_tool_raises_KeyError [OF head _ name unknown, of 5]
  have "Agent_forward 5 ?R ''q'' ?F ?w0 = Inl (KeyError ''search'')"
    by simp
  with head unknown show ?thesis by blast
qed

text \<open>
  Claim C10. When \<^verbatim>\<open>max_steps\<close> is zero or negative, \<^verbatim>\<open>forward\<close> raises
  \<^verbatim>\<open>UnboundLocalError\<close> for \<^verbatim>\<open>fn_output\<close> on every input, whatever the reasoning
  component and the tools are; so a run that returns a prediction has \<^verbatim>\<open>max_steps\<close> at
  least 1.
\<close>

theorem no_steps_raises_UnboundLocalError:
  "(ms \<le> 0 \<longrightarrow> Agent_forward ms react q fns w = Inl (UnboundLocalError ''fn_output'')) \<and>
   (\<forall>p. Agent_forward ms react q fns w = Inr p \<longrightarrow> 1 \<le> ms)"
proof -
  have zero: "Agent_forward ms react q fns w = Inl (UnboundLocalError ''fn_output'')"
    if "ms \<le> 0"
    using that by (simp add: Agent_forward_def make_prediction_def)
  then have "1 \<le> ms" if "Agent_forward ms react q fns w = Inr p" for p
    using that by (cases "ms \<le> 0") auto
  with zero show ?thesis by blast
qed

theorem no_steps_raises_UnboundLocalError_witness:
  "Agent_forward 0 (react_always (select ''finish'' [(''answer'', PyStr ''42'')])) ''q''
     [(''finish'', finish)] \<lparr>objects = 0, calls = 0\<rparr> =
     Inl (UnboundLocalError ''fn_output'') \<and>
   Agent_forward (- 1) (react_always (select ''finish'' [(''answer'', PyStr ''42'')])) ''q''
     [(''finish'', finish)] \<lparr>objects = 0, calls = 0\<rparr> =
     Inl (UnboundLocalError ''fn_output'') \<and>
   Agent_forward 1 (react_always (select ''finish'' [(''answer'', PyStr ''42'')])) ''q''
     [(''finish'', finish)] \<lparr>objects = 0, calls = 0\<rparr> =
     Inr \<lparr>answer = PyStr ''42'',
          trajectory =
            [\<lparr>t_reasoning = ''next'', t_selected_fn = ''finish'',
              t_args = [(''answer'', PyStr ''42'')],
              t_return_value = PyStr ''42'', t_errors = None\<rparr>]\<rparr>"
proof -
  let ?R = "react_always (select ''finish'' [(''answer'', PyStr ''42'')])"
  let ?F = "[(''finish'', finish)] :: (string \<times> world tool) list"
  let ?w0 = "\<lparr>objects = 0, calls = 0\<rparr>"
  from no_steps_raises_UnboundLocalError [of 0 ?R "''q''" ?F ?w0]
  have 0: "Agent_forward 0 ?R ''q'' ?F ?w0 = Inl (UnboundLocalError ''fn_output'')"
    by simp
  from no_steps_raises_UnboundLocalError [of "- 1" ?R "''q''" ?F ?w0]
  have 1: "Agent_forward (- 1) ?R ''q'' ?F ?w0 = Inl (UnboundLocalError ''fn_output'')"
    by simp
  have 2: "Agent_forward 1 ?R ''q'' ?F ?w0 =
     Inr \<lparr>answer = PyStr ''42'',
          trajectory =
            [\<lparr>t_reasoning = ''next'', t_selected_fn = ''finish'',
              t_args = [(''answer'', PyStr ''42'')],
              t_return_value = PyStr ''42'', t_errors = None\<rparr>]\<rparr>"
    by (simp add: run_unfold)
  from 0 1 2 show ?thesis by blast
qed

subsection \<open>The registry and the splits\<close>

text \<open>The inner loop, entry by entry.\<close>

lemma register_functions_skip:
  assumes "search_fn_name (clean_code func_code) = None"
  shows "register_functions exec (pre @ func_code # post) w f d =
         register_functions exec (pre @ post) w f d"
proof (induction pre arbitrary: w f d)
  case Nil
  from assms show ?case by simp
next
  case (Cons c pre)
  show ?case
    by (simp add: Cons.IH Let_def split: option.splits sum.splits prod.splits pyobj.splits)
qed

lemma register_functions_callable:
  assumes "search_fn_name (clean_code func_code) = Some n"
    and "exec w (clean_code func_code) = Inr (lv, w1)"
    and "map_of lv n = Some (Function t)"
    and "map_of f (ident t) = None"
  shows "register_functions exec (func_code # post) w f d =
         register_functions exec post w1
           (AList.update (ident t) (n, clean_code func_code) f) (AList.update n t d)"
  using assms by simp

lemma register_functions_duplicate:
  assumes "search_fn_name (clean_code func_code) = Some n"
    and "exec w (clean_code func_code) = Inr (lv, w1)"
    and "map_of lv n = Some (Function t)"
    and "map_of f (ident t) \<noteq> None"
  shows "register_functions exec (func_code # post) w f d =
         Inl (AssertionError (''Duplicate function found: '' @ n))"
  using assms by auto

lemma register_functions_not_callable:
  assumes "search_fn_name (clean_code func_code) = Some n"
    and "exec w (clean_code func_code) = Inr (lv, w1)"
    and "\<forall>t. map_of lv n \<noteq> Some (Function t)"
  shows "register_functions exec (func_code # post) w f d =
         register_functions exec post w1 f d"
  using assms by (auto split: option.splits pyobj.splits)

lemma register_functions_exec_raises:
  assumes "search_fn_name (clean_code func_code) = Some n"
    and "exec w (clean_code func_code) = Inl e"
  shows "register_functions exec (func_code # post) w f d = Inl e"
  using assms by simp

text \<open>Entries with other names leave the binding of a name as it is.\<close>

lemma register_functions_other_names:
  "\<forall>c \<in> set codes. search_fn_name (clean_code c) \<noteq> Some n \<Longrightarrow>
   register_functions exec codes w f d = Inr (w', f', d') \<Longrightarrow>
   map_of d' n = map_of d n"
proof (induction codes arbitrary: w f d)
  case Nil
  then show ?case by simp
next
  case (Cons c codes)
  from Cons.prems(1) have here: "search_fn_name (clean_code c) \<noteq> Some n"
    and rest: "\<forall>c \<in> set codes. search_fn_name (clean_code c) \<noteq> Some n"
    by simp_all
  show ?case
  proof (cases "search_fn_name (clean_code c)")
    case None
    with Cons.prems(2) Cons.IH [OF rest] show ?thesis by simp
  next
    case (Some m)
    with here have mn: "m \<noteq> n" by simp
    show ?thesis
    proof (cases "exec w (clean_code c)")
      case (Inl e)
      with Cons.prems(2) Some show ?thesis by simp
    next
      case (Inr res)
      obtain lv w1 where res: "res = (lv, w1)" by (cases res)
      show ?thesis
      proof (cases "\<exists>t. map_of lv m = Some (Function t)")
        case True
        then obtain t where t: "map_of lv m = Some (Function t)" by blast
        with Cons.prems(2) Some Inr res
        have run: "register_functions exec codes w1
                 (AList.update (ident t) (m, clean_code c) f) (AList.update m t d) =
               Inr (w', f', d')"
          by (auto split: if_splits)
        from Cons.IH [OF rest run] mn show ?thesis
          by (simp add: AList.update_conv')
      next
        case False
        with Cons.prems(2) Some Inr res
        have "register_functions exec codes w1 f d = Inr (w', f', d')"
          by (auto split: option.splits pyobj.splits)
        from Cons.IH [OF rest this] show ?thesis .
      qed
    qed
  qed
qed

lemma register_functions_binding:
  assumes "search_fn_name (clean_code func_code) = Some n"
    and "exec w (clean_code func_code) = Inr (lv, w1)"
    and "map_of lv n = Some (Function t)"
    and "\<forall>c \<in> set post. search_fn_name (clean_code c) \<noteq> Some n"
    and "register_functions exec (func_code # post) w f d = Inr (w', f', d')"
  shows "map_of d' n = Some t"
proof -
  from assms(1-3,5) have free: "map_of f (ident t) = None"
    by (auto split: if_splits)
  from assms(1-3,5) free have rest: "register_functions exec post w1
                 (AList.update (ident t) (n, clean_code func_code) f) (AList.update n t d) =
               Inr (w', f', d')"
    by simp
  from register_functions_other_names [OF assms(4) rest] show ?thesis
    by (simp add: AList.update_conv')
qed

text \<open>One example is made for each data point, in order, with its question and its
  answer, and every example has the finish tool under the name \<^verbatim>\<open>finish\<close>, whatever
  the data point defines under that name.\<close>

lemma prepare_examples_keys_from:
  "prepare_examples exec data w f exs0 = Inr (exs, f', w') \<Longrightarrow>
   map ex_key exs = map ex_key exs0 @ map dp_key data"
proof (induction data arbitrary: w f exs0)
  case Nil
  then show ?case by simp
next
  case (Cons dp data)
  from Cons.prems obtain w1 f1 d1 where
    reg: "register_functions exec (dp_functions dp) w f [] = Inr (w1, f1, d1)"
    by (auto split: sum.splits)
  with Cons.prems have "prepare_examples exec data w1 f1
      (exs0 @ [\<lparr>ex_question = dp_question dp, ex_answer = dp_answer dp,
                ex_functions = AList.update ''finish'' finish d1\<rparr>]) = Inr (exs, f', w')"
    by (simp add: Let_def)
  from Cons.IH [OF this] show ?case
    by (simp add: ex_key_def dp_key_def)
qed

lemma prepare_examples_finish:
  "prepare_examples exec data w f exs0 = Inr (exs, f', w') \<Longrightarrow>
   \<forall>ex \<in> set exs0. map_of (ex_functions ex) ''finish'' = Some finish \<Longrightarrow>
   \<forall>ex \<in> set exs. map_of (ex_functions ex) ''finish'' = Some finish"
proof (induction data arbitrary: w f exs0)
  case Nil
  then show ?case by simp
next
  case (Cons dp data)
  from Cons.prems(1) obtain w1 f1 d1 where
    reg: "register_functions exec (dp_functions dp) w f [] = Inr (w1, f1, d1)"
    by (auto split: sum.splits)
  with Cons.prems(1) have "prepare_examples exec data w1 f1
      (exs0 @ [\<lparr>ex_question = dp_question dp, ex_answer = dp_answer dp,
                ex_functions = AList.update ''finish'' finish d1\<rparr>]) = Inr (exs, f', w')"
    by (simp add: Let_def)
  from Cons.IH [OF this] Cons.prems(2) show ?case
    by (simp add: AList.update_conv')
qed

text \<open>The three splits are consecutive pieces of the list of examples.\<close>

lemma split_examples_concat:
  "split_examples exs = (train, dev, test) \<Longrightarrow> train @ dev @ test = exs"
proof -
  assume "split_examples exs = (train, dev, test)"
  then have s: "train = take 100 exs" "dev = take 300 (drop 100 exs)" "test = drop 400 exs"
    by (simp_all add: split_examples_def py_slice_def)
  have "drop 400 exs = drop 300 (drop 100 exs)" by simp
  then have "dev @ test = drop 100 exs"
    unfolding s by (simp only: append_take_drop_id)
  then show ?thesis
    unfolding s(1) by simp
qed

text \<open>The sample source texts: what the regular expression finds in them and what
  the registry makes of them.\<close>

lemmas registry_unfold =
  search_fn_name_def clean_code_def rsplit1_head_def example_usage_marker_def
  spaces1_def spaces2_def spaces3_def is_ident_char_def lower_letters_def upper_letters_def
  code_add_def code_syntax_error_def code_rebound_def code_alias_def code_nbsp_def
  code_import_first_def Let_def

lemma parse_samples:
  "search_fn_name code_add = Some ''add''"
  "search_fn_name code_syntax_error = Some ''f''"
  "search_fn_name code_rebound = Some ''f''"
  "search_fn_name code_alias = Some ''size''"
  "search_fn_name code_nbsp = Some ''f''"
  "search_fn_name code_import_first = None"
  by (simp_all add: registry_unfold)

lemma clean_samples:
  "clean_code code_add = code_add"
  "clean_code code_syntax_error = code_syntax_error"
  "clean_code code_rebound = code_rebound"
  "clean_code code_alias = code_alias"
  "clean_code code_nbsp = code_nbsp"
  "clean_code code_import_first = code_import_first"
  by (simp_all add: registry_unfold)

lemma exec_samples:
  "exec_sample w code_add = Inr ([(''add'', Function (add_tool (10 + objects w)))], new_object w)"
  "exec_sample w code_syntax_error = Inl (Exception ''invalid syntax (<string>, line 1)'')"
  "exec_sample w code_rebound = Inr ([(''f'', Value (PyInt 1))], new_object w)"
  "exec_sample w code_alias = Inr ([(''size'', Function len_builtin)], new_object w)"
  "exec_sample w code_nbsp =
     Inl (Exception ''invalid non-printable character U+00A0 (<string>, line 1)'')"
  by (simp_all add: exec_sample_def code_add_def code_syntax_error_def code_rebound_def
      code_alias_def code_nbsp_def)

lemma register_samples:
  "register_functions exec_sample [code_add] \<lparr>objects = 0, calls = 0\<rparr> [] [] =
     Inr (\<lparr>objects = 1, calls = 0\<rparr>, [(10, ''add'', code_add)], [(''add'', add_tool 10)])"
  "register_functions exec_sample [code_add, code_rebound] \<lparr>objects = 0, calls = 0\<rparr> [] [] =
     Inr (\<lparr>objects = 2, calls = 0\<rparr>, [(10, ''add'', code_add)], [(''add'', add_tool 10)])"
  "register_functions exec_sample [code_syntax_error] \<lparr>objects = 0, calls = 0\<rparr> [] [] =
     Inl (Exception ''invalid syntax (<string>, line 1)'')"
  "register_functions exec_sample [code_nbsp] \<lparr>objects = 0, calls = 0\<rparr> [] [] =
     Inl (Exception ''invalid non-printable character U+00A0 (<string>, line 1)'')"
  "register_functions exec_sample [code_rebound] \<lparr>objects = 0, calls = 0\<rparr> [] [] =
     Inr (\<lparr>objects = 1, calls = 0\<rparr>, [], [])"
  "register_functions exec_sample [code_alias] \<lparr>objects = 0, calls = 0\<rparr> [] [] =
     Inr (\<lparr>objects = 1, calls = 0\<rparr>, [(1, ''size'', code_alias)], [(''size'', len_builtin)])"
  "register_functions exec_sample [code_alias, code_alias] \<lparr>objects = 0, calls = 0\<rparr> [] [] =
     Inl (AssertionError ''Duplicate function found: size'')"
  by (simp_all add: parse_samples clean_samples exec_samples add_tool_def len_builtin_def
      new_object_def)

text \<open>
  Claim C7, as amended. A source text in which the regular expression finds no name is
  skipped: building the registry from a list that holds it gives the same result, failure
  or dictionaries, as building it from the list without it, so the entry makes nothing
  fail and registers nothing. An entry with a name \<open>n\<close> is registered when \<^verbatim>\<open>exec\<close> of
  its text succeeds and binds \<open>n\<close> to a function \<open>t\<close> that \<^verbatim>\<open>fns2code\<close> does not hold
  yet: the construction goes on with \<open>n\<close> bound to \<open>t\<close> in \<^verbatim>\<open>func_dict\<close> and \<open>t\<close>
  recorded in \<^verbatim>\<open>fns2code\<close>, and when no later entry of the data point has the same name
  and the construction completes, the registry binds \<open>n\<close> to \<open>t\<close>. When \<^verbatim>\<open>fns2code\<close>
  holds \<open>t\<close> already, the assertion fails. When \<^verbatim>\<open>exec\<close> binds the name to nothing
  callable, the entry registers nothing (the guard \<^verbatim>\<open>if callable(fn_obj)\<close>); when
  \<^verbatim>\<open>exec\<close> raises, the construction fails with that exception. The claim as stated
  says that every entry with a name is registered.
\<close>

theorem registry_skips_unparseable_entries:
  "(search_fn_name (clean_code func_code) = None \<longrightarrow>
      register_functions exec (pre @ func_code # post) w f d =
      register_functions exec (pre @ post) w f d) \<and>
   (\<forall>n lv w1 t.
      search_fn_name (clean_code func_code) = Some n \<and>
      exec w (clean_code func_code) = Inr (lv, w1) \<and>
      map_of lv n = Some (Function t) \<and>
      map_of f (ident t) = None \<longrightarrow>
      register_functions exec (func_code # post) w f d =
      register_functions exec post w1
        (AList.update (ident t) (n, clean_code func_code) f) (AList.update n t d)) \<and>
   (\<forall>n lv w1 t w' f' d'.
      search_fn_name (clean_code func_code) = Some n \<and>
      exec w (clean_code func_code) = Inr (lv, w1) \<and>
      map_of lv n = Some (Function t) \<and>
      (\<forall>c \<in> set post. search_fn_name (clean_code c) \<noteq> Some n) \<and>
      register_functions exec (func_code # post) w f d = Inr (w', f', d') \<longrightarrow>
      map_of d' n = Some t) \<and>
   (\<forall>n lv w1 t.
      search_fn_name (clean_code func_code) = Some n \<and>
      exec w (clean_code func_code) = Inr (lv, w1) \<and>
      map_of lv n = Some (Function t) \<and>
      map_of f (ident t) \<noteq> None \<longrightarrow>
      register_functions exec (func_code # post) w f d =
      Inl (AssertionError (''Duplicate function found: '' @ n))) \<and>
   (\<forall>n lv w1.
      search_fn_name (clean_code func_code) = Some n \<and>
      exec w (clean_code func_code) = Inr (lv, w1) \<and>
      (\<forall>t. map_of lv n \<noteq> Some (Function t)) \<longrightarrow>
      register_functions exec (func_code # post) w f d =
      register_functions exec post w1 f d) \<and>
   (\<forall>n e.
      search_fn_name (clean_code func_code) = Some n \<and>
      exec w (clean_code func_code) = Inl e \<longrightarrow>
      register_functions exec (func_code # post) w f d = Inl e)"
proof (intro conjI allI impI)
  assume "search_fn_name (clean_code func_code) = None"
  then show "register_functions exec (pre @ func_code # post) w f d =
      register_functions exec (pre @ post) w f d"
    by (rule register_functions_skip)
next
  fix n lv w1 t
  assume "search_fn_name (clean_code func_code) = Some n \<and>
      exec w (clean_code func_code) = Inr (lv, w1) \<and>
      map_of lv n = Some (Function t) \<and>
      map_of f (ident t) = None"
  then show "register_functions exec (func_code # post) w f d =
      register_functions exec post w1
        (AList.update (ident t) (n, clean_code func_code) f) (AList.update n t d)"
    by (elim conjE) (rule register_functions_callable)
next
  fix n lv w1 t w' f' d'
  assume "search_fn_name (clean_code func_code) = Some n \<and>
      exec w (clean_code func_code) = Inr (lv, w1) \<and>
      map_of lv n = Some (Function t) \<and>
      (\<forall>c \<in> set post. search_fn_name (clean_code c) \<noteq> Some n) \<and>
      register_functions exec (func_code # post) w f d = Inr (w', f', d')"
  then show "map_of d' n = Some t"
    by (elim conjE) (rule register_functions_binding)
next
  fix n lv w1 t
  assume "search_fn_name (clean_code func_code) = Some n \<and>
      exec w (clean_code func_code) = Inr (lv, w1) \<and>
      map_of lv n = Some (Function t) \<and>
      map_of f (ident t) \<noteq> None"
  then show "register_functions exec (func_code # post) w f d =
      Inl (AssertionError (''Duplicate function found: '' @ n))"
    by (elim conjE) (rule register_functions_duplicate)
next
  fix n lv w1
  assume "search_fn_name (clean_code func_code) = Some n \<and>
      exec w (clean_code func_code) = Inr (lv, w1) \<and>
      (\<forall>t. map_of lv n \<noteq> Some (Function t))"
  then show "register_functions exec (func_code # post) w f d =
      register_functions exec post w1 f d"
    by (elim conjE) (rule register_functions_not_callable)
next
  fix n e
  assume "search_fn_name (clean_code func_code) = Some n \<and>
      exec w (clean_code func_code) = Inl e"
  then show "register_functions exec (func_code # post) w f d = Inl e"
    by (elim conjE) (rule register_functions_exec_raises)
qed

theorem registry_skips_unparseable_entries_witness:
  "search_fn_name (clean_code code_import_first) = None \<and>
   register_functions exec_sample [code_add, code_import_first, code_rebound]
       \<lparr>objects = 0, calls = 0\<rparr> [] [] =
     Inr (\<lparr>objects = 2, calls = 0\<rparr>, [(10, ''add'', code_add)], [(''add'', add_tool 10)]) \<and>
   search_fn_name (clean_code code_add) = Some ''add'' \<and>
   register_functions exec_sample [code_add, code_rebound] \<lparr>objects = 0, calls = 0\<rparr> [] [] =
     register_functions exec_sample [code_rebound] \<lparr>objects = 1, calls = 0\<rparr>
       [(10, ''add'', code_add)] [(''add'', add_tool 10)] \<and>
   map_of [(''add'', add_tool 10)] ''add'' = Some (add_tool 10) \<and>
   search_fn_name (clean_code code_alias) = Some ''size'' \<and>
   register_functions exec_sample [code_alias] \<lparr>objects = 1, calls = 0\<rparr>
       [(1, ''size'', code_alias)] [(''size'', len_builtin)] =
     Inl (AssertionError ''Duplicate function found: size'') \<and>
   search_fn_name (clean_code code_rebound) = Some ''f'' \<and>
   register_functions exec_sample [code_rebound] \<lparr>objects = 0, calls = 0\<rparr> [] [] =
     Inr (\<lparr>objects = 1, calls = 0\<rparr>, [], []) \<and>
   search_fn_name (clean_code code_nbsp) = Some ''f'' \<and>
   register_functions exec_sample [code_nbsp] \<lparr>objects = 0, calls = 0\<rparr> [] [] =
     Inl (Exception ''invalid non-printable character U+00A0 (<string>, line 1)'')"
proof -
  let ?w0 = "\<lparr>objects = 0, calls = 0\<rparr>"
  let ?w1 = "\<lparr>objects = 1, calls = 0\<rparr>"
  let ?w2 = "\<lparr>objects = 2, calls = 0\<rparr>"
  have p1: "search_fn_name (clean_code code_import_first) = None"
    and p2: "search_fn_name (clean_code code_add) = Some ''add''"
    and p3: "search_fn_name (clean_code code_rebound) = Some ''f''"
    and p4: "search_fn_name (clean_code code_nbsp) = Some ''f''"
    and p5: "search_fn_name (clean_code code_alias) = Some ''size''"
    by (simp_all add: clean_samples parse_samples)
  have e2: "exec_sample ?w0 (clean_code code_add) = Inr ([(''add'', Function (add_tool 10))], ?w1)"
    and e3: "exec_sample ?w0 (clean_code code_rebound) = Inr ([(''f'', Value (PyInt 1))], ?w1)"
    and e4: "exec_sample ?w0 (clean_code code_nbsp) =
        Inl (Exception ''invalid non-printable character U+00A0 (<string>, line 1)'')"
    and e5: "exec_sample ?w1 (clean_code code_alias) =
        Inr ([(''size'', Function len_builtin)], ?w2)"
    by (simp_all add: clean_samples exec_samples new_object_def)
  have r2: "register_functions exec_sample [code_add, code_rebound] ?w0 [] [] =
     Inr (?w2, [(10, ''add'', code_add)], [(''add'', add_tool 10)])"
    by (rule register_samples)
  have other: "\<forall>c \<in> set [code_rebound]. search_fn_name (clean_code c) \<noteq> Some ''add''"
    by (simp add: p3)
  have i10: "ident (add_tool 10) = 10" and i1: "ident len_builtin = 1"
    by (simp_all add: add_tool_def len_builtin_def)
  from registry_skips_unparseable_entries
    [of code_import_first exec_sample "[code_add]" "[code_rebound]" ?w0 "[]" "[]"] p1 r2
  have 1: "register_functions exec_sample [code_add, code_import_first, code_rebound] ?w0 [] [] =
     Inr (?w2, [(10, ''add'', code_add)], [(''add'', add_tool 10)])"
    by simp
  from registry_skips_unparseable_entries
    [of code_add exec_sample "[]" "[code_rebound]" ?w0 "[]" "[]"] p2 e2 i10
  have 2: "register_functions exec_sample [code_add, code_rebound] ?w0 [] [] =
     register_functions exec_sample [code_rebound] ?w1
       [(10, ''add'', code_add)] [(''add'', add_tool 10)]"
    by (simp add: clean_samples)
  have m2: "map_of [(''add'', Function (add_tool 10))] ''add'' = Some (Function (add_tool 10))"
    by simp
  from registry_skips_unparseable_entries
    [of code_add exec_sample "[]" "[code_rebound]" ?w0 "[]" "[]"] p2 e2 m2 other r2
  have 3: "map_of [(''add'', add_tool 10)] ''add'' = Some (add_tool 10)"
    by blast
  from registry_skips_unparseable_entries
    [of code_alias exec_sample "[]" "[]" ?w1 "[(1, ''size'', code_alias)]"
        "[(''size'', len_builtin)]"] p5 e5 i1
  have 4: "register_functions exec_sample [code_alias] ?w1
       [(1, ''size'', code_alias)] [(''size'', len_builtin)] =
     Inl (AssertionError ''Duplicate function found: size'')"
    by simp
  from registry_skips_unparseable_entries
    [of code_rebound exec_sample "[]" "[]" ?w0 "[]" "[]"] p3 e3
  have 5: "register_functions exec_sample [code_rebound] ?w0 [] [] = Inr (?w1, [], [])"
    by simp
  from registry_skips_unparseable_entries
    [of code_nbsp exec_sample "[]" "[]" ?w0 "[]" "[]"] p4 e4
  have 6: "register_functions exec_sample [code_nbsp] ?w0 [] [] =
      Inl (Exception ''invalid non-printable character U+00A0 (<string>, line 1)'')"
    by blast
  from p1 1 p2 2 3 p5 4 p3 5 p4 6 show ?thesis by blast
qed

theorem registry_parseable_entry_counterexample:
  "search_fn_name (clean_code code_syntax_error) = Some ''f'' \<and>
   register_functions exec_sample [code_syntax_error] \<lparr>objects = 0, calls = 0\<rparr> [] [] =
     Inl (Exception ''invalid syntax (<string>, line 1)'') \<and>
   search_fn_name (clean_code code_rebound) = Some ''f'' \<and>
   register_functions exec_sample [code_rebound] \<lparr>objects = 0, calls = 0\<rparr> [] [] =
     Inr (\<lparr>objects = 1, calls = 0\<rparr>, [], [])"
proof (intro conjI)
  show "search_fn_name (clean_code code_syntax_error) = Some ''f''"
    by (simp add: clean_samples parse_samples)
  show "register_functions exec_sample [code_syntax_error] \<lparr>objects = 0, calls = 0\<rparr> [] [] =
     Inl (Exception ''invalid syntax (<string>, line 1)'')"
    by (rule register_samples)
  show "search_fn_name (clean_code code_rebound) = Some ''f''"
    by (simp add: clean_samples parse_samples)
  show "register_functions exec_sample [code_rebound] \<lparr>objects = 0, calls = 0\<rparr> [] [] =
     Inr (\<lparr>objects = 1, calls = 0\<rparr>, [], [])"
    by (rule register_samples)
qed

lemma prepare_examples_keys:
  assumes "prepare_examples exec data w [] [] = Inr (exs, f', w')"
  shows "map ex_key exs = map dp_key data"
  using prepare_examples_keys_from [OF assms] by simp

lemma load_splits_keys:
  assumes "load_splits shuffle seed exec w data = Inr (train, dev, test)"
  shows "map ex_key train = take 100 (map dp_key (shuffle seed data)) \<and>
         map ex_key dev = take 300 (drop 100 (map dp_key (shuffle seed data))) \<and>
         map ex_key test = drop 400 (map dp_key (shuffle seed data))"
proof -
  from assms obtain exs f' w' where
    prep: "prepare_examples exec (shuffle seed data) w [] [] = Inr (exs, f', w')" and
    split: "split_examples exs = (train, dev, test)"
    by (auto simp: load_splits_def Let_def split: sum.splits)
  from split have "train = take 100 exs" "dev = take 300 (drop 100 exs)" "test = drop 400 exs"
    by (simp_all add: split_examples_def py_slice_def)
  then show ?thesis
    by (simp add: take_map drop_map prepare_examples_keys [OF prep, symmetric])
qed

text \<open>
  Claim C8. The splits are index ranges of the shuffled data: the questions and answers
  of the train split are those of the first 100 shuffled data points, those of the dev
  split are those of the next 300, and those of the test split are those of the
  remainder. So two runs on the same data with the same seed put the same data points in
  the same splits, whatever \<^verbatim>\<open>exec\<close> does in each run and whatever function objects it
  creates. (With the same \<^verbatim>\<open>exec\<close> and the same state of the world the two runs are one
  and the same value of \<open>load_splits\<close>.)
\<close>

theorem splits_are_index_ranges_of_the_seeded_shuffle:
  assumes "load_splits shuffle seed exec1 w1 data = Inr (train1, dev1, test1)"
    and "load_splits shuffle seed exec2 w2 data = Inr (train2, dev2, test2)"
  shows "map ex_key train1 = take 100 (map dp_key (shuffle seed data)) \<and>
         map ex_key dev1 = take 300 (drop 100 (map dp_key (shuffle seed data))) \<and>
         map ex_key test1 = drop 400 (map dp_key (shuffle seed data)) \<and>
         map ex_key train2 = map ex_key train1 \<and>
         map ex_key dev2 = map ex_key dev1 \<and>
         map ex_key test2 = map ex_key test1"
  using load_splits_keys [OF assms(1)] load_splits_keys [OF assms(2)] by simp

lemma load_sample:
  "load_splits shuffle_sample notebook_seed exec_sample \<lparr>objects = k, calls = 0\<rparr> data_sample =
     Inr ([\<lparr>ex_question = ''q3'', ex_answer = ''a3'',
             ex_functions = [(''add'', add_tool (11 + k)), (''finish'', finish)]\<rparr>,
           \<lparr>ex_question = ''q2'', ex_answer = ''a2'',
             ex_functions = [(''finish'', finish)]\<rparr>,
           \<lparr>ex_question = ''q1'', ex_answer = ''a1'',
             ex_functions = [(''add'', add_tool (12 + k)), (''finish'', finish)]\<rparr>],
          [], [])"
  by (simp add: load_splits_def shuffle_sample_def data_sample_def split_examples_def
      py_slice_def clean_samples parse_samples exec_samples add_tool_def new_object_def)

theorem splits_are_index_ranges_of_the_seeded_shuffle_witness:
  "load_splits shuffle_sample notebook_seed exec_sample \<lparr>objects = 0, calls = 0\<rparr> data_sample =
     Inr ([\<lparr>ex_question = ''q3'', ex_answer = ''a3'',
             ex_functions = [(''add'', add_tool 11), (''finish'', finish)]\<rparr>,
           \<lparr>ex_question = ''q2'', ex_answer = ''a2'',
             ex_functions = [(''finish'', finish)]\<rparr>,
           \<lparr>ex_question = ''q1'', ex_answer = ''a1'',
             ex_functions = [(''add'', add_tool 12), (''finish'', finish)]\<rparr>],
          [], []) \<and>
   load_splits shuffle_sample notebook_seed exec_sample \<lparr>objects = 5, calls = 0\<rparr> data_sample =
     Inr ([\<lparr>ex_question = ''q3'', ex_answer = ''a3'',
             ex_functions = [(''add'', add_tool 16), (''finish'', finish)]\<rparr>,
           \<lparr>ex_question = ''q2'', ex_answer = ''a2'',
             ex_functions = [(''finish'', finish)]\<rparr>,
           \<lparr>ex_question = ''q1'', ex_answer = ''a1'',
             ex_functions = [(''add'', add_tool 17), (''finish'', finish)]\<rparr>],
          [], []) \<and>
   map ex_key
     [\<lparr>ex_question = ''q3'', ex_answer = ''a3'',
        ex_functions = [(''add'', add_tool 16), (''finish'', finish)]\<rparr>,
      \<lparr>ex_question = ''q2'', ex_answer = ''a2'',
        ex_functions = [(''finish'', finish)]\<rparr>,
      \<lparr>ex_question = ''q1'', ex_answer = ''a1'',
        ex_functions = [(''add'', add_tool 17), (''finish'', finish)]\<rparr>] =
   take 100 (map dp_key (shuffle_sample notebook_seed data_sample))"
proof -
  have run1: "load_splits shuffle_sample notebook_seed exec_sample \<lparr>objects = 0, calls = 0\<rparr>
       data_sample =
     Inr ([\<lparr>ex_question = ''q3'', ex_answer = ''a3'',
             ex_functions = [(''add'', add_tool 11), (''finish'', finish)]\<rparr>,
           \<lparr>ex_question = ''q2'', ex_answer = ''a2'',
             ex_functions = [(''finish'', finish)]\<rparr>,
           \<lparr>ex_question = ''q1'', ex_answer = ''a1'',
             ex_functions = [(''add'', add_tool 12), (''finish'', finish)]\<rparr>],
          [], [])"
    using load_sample [of 0] by simp
  have run2: "load_splits shuffle_sample notebook_seed exec_sample \<lparr>objects = 5, calls = 0\<rparr>
       data_sample =
     Inr ([\<lparr>ex_question = ''q3'', ex_answer = ''a3'',
             ex_functions = [(''add'', add_tool 16), (''finish'', finish)]\<rparr>,
           \<lparr>ex_question = ''q2'', ex_answer = ''a2'',
             ex_functions = [(''finish'', finish)]\<rparr>,
           \<lparr>ex_question = ''q1'', ex_answer = ''a1'',
             ex_functions = [(''add'', add_tool 17), (''finish'', finish)]\<rparr>],
          [], [])"
    using load_sample [of 5] by simp
  from splits_are_index_ranges_of_the_seeded_shuffle [OF run2 run1] run1 run2
  show ?thesis by blast
qed

end
